theory Spec2Isabelle
  imports Main "HOL-Library.Sublist" "HOL-Library.AList"
begin

section \<open>Text\<close>

text \<open>
  A Python \<open>str\<close> is modelled by its UTF-8 encoding, a \<^typ>\<open>string\<close>: the bytes
  that \<open>open(..., encoding='utf-8')\<close> writes. Every character the program tests for
  (quotes, backslash, control characters, the letters of the closing markers, white
  space) is either ASCII or has a fixed encoding, and UTF-8 never repeats an ASCII byte
  inside a longer sequence, so searching and cutting bytes agrees with searching and
  cutting characters. The letters with an accent that the literals of the source
  contain are written as their two bytes.

  A \<open>str\<close> can also hold a lone surrogate, U+D800 to U+DFFF: \<open>response.json()\<close> and
  \<open>json.load\<close> produce one from an escape such as \<open>\udc80\<close>. It is written here with the
  three bytes that the same scheme gives it, \<open>0xED\<close>, then a byte from \<open>0xA0\<close> to \<open>0xBF\<close>,
  then one more; no other character has these bytes, since U+D000 to U+D7FF are
  \<open>0xED\<close> followed by a byte below \<open>0xA0\<close>.
\<close>

abbreviation a_aguda :: string where "a_aguda \<equiv> [CHR 0xC3, CHR 0xA1]"
abbreviation e_aguda :: string where "e_aguda \<equiv> [CHR 0xC3, CHR 0xA9]"
abbreviation i_aguda :: string where "i_aguda \<equiv> [CHR 0xC3, CHR 0xAD]"
abbreviation o_aguda :: string where "o_aguda \<equiv> [CHR 0xC3, CHR 0xB3]"
abbreviation abre_pregunta :: string where "abre_pregunta \<equiv> [CHR 0xC2, CHR 0xBF]"

subsection \<open>\<open>str.encode\<close>\<close>

text \<open>
  \<open>s.encode('utf-8')\<close> raises \<open>UnicodeEncodeError\<close> when \<open>s\<close> holds a surrogate, and
  returns the bytes of \<open>s\<close> otherwise. \<open>codificable s\<close>: it returns.
\<close>

fun codifica_desde :: "bool \<Rightarrow> string \<Rightarrow> bool" where
  "codifica_desde tras_ed [] = True"
| "codifica_desde tras_ed (c # r) =
     (\<not> (tras_ed \<and> (0xA0 :: nat) \<le> of_char c) \<and> codifica_desde (c = CHR 0xED) r)"

definition codificable :: "string \<Rightarrow> bool" where
  "codificable s = codifica_desde False s"

subsection \<open>\<open>str.strip\<close>\<close>

text \<open>
  The characters for which \<open>str.isspace\<close> holds, each as its UTF-8 bytes:
  U+0009..U+000D, U+001C..U+001F, U+0020, U+0085, U+00A0, U+1680, U+2000..U+200A,
  U+2028, U+2029, U+202F, U+205F and U+3000.
\<close>

definition espacios :: "string list" where
  "espacios =
    [[CHR 0x09], [CHR 0x0A], [CHR 0x0B], [CHR 0x0C], [CHR 0x0D],
     [CHR 0x1C], [CHR 0x1D], [CHR 0x1E], [CHR 0x1F], [CHR 0x20],
     [CHR 0xC2, CHR 0x85], [CHR 0xC2, CHR 0xA0],
     [CHR 0xE1, CHR 0x9A, CHR 0x80],
     [CHR 0xE2, CHR 0x80, CHR 0x80], [CHR 0xE2, CHR 0x80, CHR 0x81],
     [CHR 0xE2, CHR 0x80, CHR 0x82], [CHR 0xE2, CHR 0x80, CHR 0x83],
     [CHR 0xE2, CHR 0x80, CHR 0x84], [CHR 0xE2, CHR 0x80, CHR 0x85],
     [CHR 0xE2, CHR 0x80, CHR 0x86], [CHR 0xE2, CHR 0x80, CHR 0x87],
     [CHR 0xE2, CHR 0x80, CHR 0x88], [CHR 0xE2, CHR 0x80, CHR 0x89],
     [CHR 0xE2, CHR 0x80, CHR 0x8A],
     [CHR 0xE2, CHR 0x80, CHR 0xA8], [CHR 0xE2, CHR 0x80, CHR 0xA9],
     [CHR 0xE2, CHR 0x80, CHR 0xAF], [CHR 0xE2, CHR 0x81, CHR 0x9F],
     [CHR 0xE3, CHR 0x80, CHR 0x80]]"

definition espacio_inicial :: "string \<Rightarrow> string option" where
  "espacio_inicial s = find (\<lambda>w. prefix w s) espacios"

definition espacio_final :: "string \<Rightarrow> string option" where
  "espacio_final s = find (\<lambda>w. suffix w s) espacios"

lemma espacios_no_vacios: "w \<in> set espacios \<Longrightarrow> w \<noteq> []"
  by (auto simp: espacios_def)

lemma espacio_inicial_acorta:
  "espacio_inicial s = Some w \<Longrightarrow> length s - length w < length s"
proof -
  assume "espacio_inicial s = Some w"
  then have "w \<in> set espacios" and "prefix w s"
    by (auto simp: espacio_inicial_def find_Some_iff)
  then have "w \<noteq> []" and "s \<noteq> []"
    using espacios_no_vacios by auto
  then show ?thesis by simp
qed

lemma espacio_final_acorta:
  "espacio_final s = Some w \<Longrightarrow> length s - length w < length s"
proof -
  assume "espacio_final s = Some w"
  then have "w \<in> set espacios" and "suffix w s"
    by (auto simp: espacio_final_def find_Some_iff)
  then have "w \<noteq> []" and "s \<noteq> []"
    using espacios_no_vacios by auto
  then show ?thesis by simp
qed

function lstrip :: "string \<Rightarrow> string" where
  "lstrip s =
     (case espacio_inicial s of
        None \<Rightarrow> s
      | Some w \<Rightarrow> lstrip (drop (length w) s))"
  by pat_completeness auto
termination
  by (relation "measure length") (auto simp: espacio_inicial_acorta)

function rstrip :: "string \<Rightarrow> string" where
  "rstrip s =
     (case espacio_final s of
        None \<Rightarrow> s
      | Some w \<Rightarrow> rstrip (take (length s - length w) s))"
  by pat_completeness auto
termination
  by (relation "measure length") (auto simp: espacio_final_acorta)

declare lstrip.simps [simp del] rstrip.simps [simp del]

text \<open>\<open>s.strip()\<close>: leading white space goes first, then trailing white space.\<close>

definition strip :: "string \<Rightarrow> string" where
  "strip s = rstrip (lstrip s)"

subsection \<open>\<open>str.lower\<close>, \<open>in\<close> and \<open>str.replace\<close>\<close>

text \<open>
  \<open>s.lower()\<close> on the letters A to Z. The other bytes stay: the lower-case form of a
  character outside ASCII has no ASCII letter in it, save U+212A (which gives \<open>k\<close>, a
  letter of no marker) and U+0130 (which gives \<open>i\<close> followed by U+0307, and no marker
  ends in \<open>i\<close>), so the search for an ASCII marker in \<open>s.lower()\<close> sees the same.
\<close>

definition minuscula :: "char \<Rightarrow> char" where
  "minuscula c =
     (case map_of (zip ''ABCDEFGHIJKLMNOPQRSTUVWXYZ'' ''abcdefghijklmnopqrstuvwxyz'') c of
        None \<Rightarrow> c
      | Some d \<Rightarrow> d)"

definition lower :: "string \<Rightarrow> string" where
  "lower s = map minuscula s"

text \<open>
  \<open>a in b\<close> on two strings is \<^term>\<open>sublist a b\<close>: \<open>a\<close> occurs in \<open>b\<close> as a run of
  consecutive characters.

  \<open>s.replace(old, new)\<close> for a non-empty \<open>old\<close>: the occurrences are replaced from the
  left, without overlap. (The program calls it with \<open>"Entrevistador:"\<close> only; on an
  empty \<open>old\<close> the model returns \<open>s\<close>.)
\<close>

function replace :: "string \<Rightarrow> string \<Rightarrow> string \<Rightarrow> string" where
  "replace old new s =
     (if old = [] \<or> s = [] then s
      else if prefix old s then new @ replace old new (drop (length old) s)
      else hd s # replace old new (tl s))"
  by pat_completeness auto
termination
  by (relation "measure (\<lambda>(old, new, s). length s)") auto

declare replace.simps [simp del]

section \<open>The conversation\<close>

text \<open>
  A turn is the dictionary \<open>{"rol": ..., "texto": ...}\<close> that \<open>main.py\<close> appends; the
  conversation is the list of them.
\<close>

record turno =
  rol :: string
  texto :: string

definition entrevistador :: string where
  "entrevistador = ''entrevistador''"

definition candidato :: string where
  "candidato = ''candidato''"

section \<open>The request to the model (\<open>llm_conversacion.py\<close>)\<close>

record mensaje =
  role :: string
  content :: string

definition instruccion_final :: string where
  "instruccion_final =
     ''Genera la siguiente pregunta del entrevistador basada en la conversaci'' @ o_aguda @
     ''n anterior. Solo devuelve la pregunta sin explicaciones adicionales o prefijos.''"

definition rol_api :: "string \<Rightarrow> string" where
  "rol_api r = (if r = ''entrevistador'' then ''assistant'' else ''user'')"

text \<open>Lines 68 to 79 of \<open>OpenRouterConversacion.generar_pregunta\<close>.\<close>

definition mensajes :: "turno list \<Rightarrow> string \<Rightarrow> mensaje list" where
  "mensajes conversacion prompt_base =
     \<lparr>role = ''system'', content = prompt_base\<rparr>
       # map (\<lambda>m. \<lparr>role = rol_api (rol m), content = texto m\<rparr>) conversacion
       @ [\<lparr>role = ''user'', content = instruccion_final\<rparr>]"

text \<open>The payload of the request; the sampling temperature (0.7) is left out.\<close>

record peticion =
  model :: string
  messages :: "mensaje list"
  max_tokens :: nat

definition payload :: "string \<Rightarrow> turno list \<Rightarrow> string \<Rightarrow> peticion" where
  "payload modelo conversacion prompt_base =
     \<lparr>model = modelo, messages = mensajes conversacion prompt_base, max_tokens = 250\<rparr>"

subsection \<open>What the call returns\<close>

text \<open>
  The exceptions of Python that the program can meet. \<open>KeyboardInterrupt\<close> is not among
  them: it is no \<open>Exception\<close>, no handler of the modules catches it by name, and the
  session controller treats it apart.
\<close>

datatype excepcion =
  TypeError | KeyError | IndexError | AttributeError | ValueError
  | RequestException | HTTPError | JSONDecodeError | FileNotFoundError
  | UnicodeEncodeError

text \<open>
  What \<open>json\<close> reads and writes: \<open>None\<close>, a \<open>bool\<close>, a number (kept as its numeral), a
  \<open>str\<close>, a \<open>list\<close>, and a \<open>dict\<close> with its keys in the order of insertion.
\<close>

datatype json =
  JNull
  | JBool bool
  | JNumber string
  | JString string
  | JArray "json list"
  | JObject "(string \<times> json) list"

definition seguido :: "excepcion + 'a \<Rightarrow> ('a \<Rightarrow> excepcion + 'b) \<Rightarrow> excepcion + 'b" where
  "seguido x f = (case x of Inl e \<Rightarrow> Inl e | Inr v \<Rightarrow> f v)"

text \<open>\<open>k in x\<close> for a string \<open>k\<close>.\<close>

fun py_in :: "string \<Rightarrow> json \<Rightarrow> excepcion + bool" where
  "py_in k (JObject kvs) = Inr (k \<in> set (map fst kvs))"
| "py_in k (JArray xs) = Inr (JString k \<in> set xs)"
| "py_in k (JString s) = Inr (sublist k s)"
| "py_in k JNull = Inl TypeError"
| "py_in k (JBool b) = Inl TypeError"
| "py_in k (JNumber n) = Inl TypeError"

text \<open>\<open>x[k]\<close> for a string \<open>k\<close>: only a \<open>dict\<close> takes one.\<close>

fun py_getitem :: "json \<Rightarrow> string \<Rightarrow> excepcion + json" where
  "py_getitem (JObject kvs) k = (case map_of kvs k of None \<Rightarrow> Inl KeyError | Some v \<Rightarrow> Inr v)"
| "py_getitem (JArray xs) k = Inl TypeError"
| "py_getitem (JString s) k = Inl TypeError"
| "py_getitem JNull k = Inl TypeError"
| "py_getitem (JBool b) k = Inl TypeError"
| "py_getitem (JNumber n) k = Inl TypeError"

text \<open>
  \<open>len(x)\<close>. The length of a \<open>str\<close> is counted in bytes here; the program only asks
  whether it is positive.
\<close>

fun py_len :: "json \<Rightarrow> excepcion + nat" where
  "py_len (JObject kvs) = Inr (length (remdups (map fst kvs)))"
| "py_len (JArray xs) = Inr (length xs)"
| "py_len (JString s) = Inr (length s)"
| "py_len JNull = Inl TypeError"
| "py_len (JBool b) = Inl TypeError"
| "py_len (JNumber n) = Inl TypeError"

text \<open>The first character of a string: as many bytes as its first byte announces.\<close>

definition primer_caracter :: "string \<Rightarrow> string" where
  "primer_caracter s =
     (let n = (of_char (hd s) :: nat)
      in take (if n < 0x80 then 1 else if n < 0xE0 then 2 else if n < 0xF0 then 3 else 4) s)"

text \<open>\<open>x[0]\<close>. The keys of a \<open>dict\<close> read from JSON are strings, so \<open>0\<close> is none of them.\<close>

fun py_getitem_0 :: "json \<Rightarrow> excepcion + json" where
  "py_getitem_0 (JArray xs) = (case xs of [] \<Rightarrow> Inl IndexError | x # _ \<Rightarrow> Inr x)"
| "py_getitem_0 (JString s) = (if s = [] then Inl IndexError else Inr (JString (primer_caracter s)))"
| "py_getitem_0 (JObject kvs) = Inl KeyError"
| "py_getitem_0 JNull = Inl TypeError"
| "py_getitem_0 (JBool b) = Inl TypeError"
| "py_getitem_0 (JNumber n) = Inl TypeError"

text \<open>\<open>x.strip()\<close>: only a \<open>str\<close> has the method.\<close>

fun py_strip :: "json \<Rightarrow> excepcion + string" where
  "py_strip (JString s) = Inr (strip s)"
| "py_strip (JObject kvs) = Inl AttributeError"
| "py_strip (JArray xs) = Inl AttributeError"
| "py_strip JNull = Inl AttributeError"
| "py_strip (JBool b) = Inl AttributeError"
| "py_strip (JNumber n) = Inl AttributeError"

text \<open>The three literal questions that stand in for a generated one.\<close>

definition pregunta_respaldo_forma :: string where
  "pregunta_respaldo_forma =
     abre_pregunta @ ''Podr'' @ i_aguda @ ''as contarme m'' @ a_aguda @
     ''s sobre tus habilidades t'' @ e_aguda @ ''cnicas?''"

definition pregunta_respaldo_transporte :: string where
  "pregunta_respaldo_transporte =
     abre_pregunta @ ''C'' @ o_aguda @ ''mo relacionar'' @ i_aguda @
     ''as tu experiencia previa con este puesto espec'' @ i_aguda @ ''ficamente?''"

definition pregunta_respaldo_general :: string where
  "pregunta_respaldo_general =
     ''Interesante. '' @ abre_pregunta @ ''Puedes contarme m'' @ a_aguda @
     ''s sobre tu experiencia en ese aspecto?''"

text \<open>
  Line 112: \<open>"choices" in resultado and len(resultado["choices"]) > 0\<close>, with the
  short circuit of \<open>and\<close>.
\<close>

definition tiene_choices :: "json \<Rightarrow> excepcion + bool" where
  "tiene_choices resultado =
     seguido (py_in ''choices'' resultado) (\<lambda>b.
       if \<not> b then Inr False
       else seguido (py_getitem resultado ''choices'') (\<lambda>ch.
            seguido (py_len ch) (\<lambda>n. Inr (0 < n))))"

text \<open>
  Line 113: \<open>"message" in resultado["choices"][0] and
  "content" in resultado["choices"][0]["message"]\<close>.
\<close>

definition tiene_content :: "json \<Rightarrow> excepcion + bool" where
  "tiene_content resultado =
     seguido (py_getitem resultado ''choices'') (\<lambda>ch.
     seguido (py_getitem_0 ch) (\<lambda>c0.
     seguido (py_in ''message'' c0) (\<lambda>b.
       if \<not> b then Inr False
       else seguido (py_getitem c0 ''message'') (\<lambda>m. py_in ''content'' m))))"

text \<open>Line 114: \<open>resultado["choices"][0]["message"]["content"]\<close>.\<close>

definition leer_content :: "json \<Rightarrow> excepcion + json" where
  "leer_content resultado =
     seguido (py_getitem resultado ''choices'') (\<lambda>ch.
     seguido (py_getitem_0 ch) (\<lambda>c0.
     seguido (py_getitem c0 ''message'') (\<lambda>m. py_getitem m ''content'')))"

text \<open>
  Lines 112 to 124: the question in the decoded answer, or the exception raised. The
  two \<open>print\<close> calls of lines 119 and 121 are taken to return: the terminal accepts
  the text. One that raised would raise inside the \<open>try\<close>, and the handler of line 126
  would return the other fixed question.
\<close>

definition extraer_pregunta :: "json \<Rightarrow> excepcion + string" where
  "extraer_pregunta resultado =
     seguido (tiene_choices resultado) (\<lambda>hay.
       if hay then
         seguido (tiene_content resultado) (\<lambda>completo.
           if completo then
             seguido (leer_content resultado) (\<lambda>x.
             seguido (py_strip x) (\<lambda>nueva_pregunta.
               Inr (strip (replace ''Entrevistador:'' [] nueva_pregunta))))
           else Inr pregunta_respaldo_forma)
       else Inr pregunta_respaldo_forma)"

text \<open>
  What \<open>requests.post\<close> does: it raises, or it returns a response with its \<open>ok\<close> flag
  and the value of \<open>response.json()\<close> (\<open>None\<close> when the body is no JSON document and
  \<open>response.json()\<close> raises).
\<close>

datatype respuesta_http =
  Lanza excepcion
  | Respuesta bool "json option"

text \<open>
  Lines 90 to 124, the body of the \<open>try\<close>. A response that is not \<open>ok\<close> ends in
  \<open>raise_for_status()\<close>, whatever its body holds.
\<close>

fun procesar_respuesta :: "respuesta_http \<Rightarrow> excepcion + string" where
  "procesar_respuesta (Lanza e) = Inl e"
| "procesar_respuesta (Respuesta ok cuerpo) =
     (if \<not> ok then Inl HTTPError
      else case cuerpo of
             None \<Rightarrow> Inl JSONDecodeError
           | Some resultado \<Rightarrow> extraer_pregunta resultado)"

definition modelo_mapping :: "string \<rightharpoonup> string" where
  "modelo_mapping = [''meta-llama'' \<mapsto> ''meta-llama/llama-3.3-8b-instruct:free'']"

definition nombre_completo :: "string \<Rightarrow> string" where
  "nombre_completo m = (case modelo_mapping m of None \<Rightarrow> m | Some largo \<Rightarrow> largo)"

record openrouter =
  api_key :: string
  modelo_or :: string

text \<open>
  \<open>OpenRouterConversacion.__init__\<close>; \<open>clave\<close> is the environment variable
  \<open>OPENROUTER_API_KEY\<close>, \<open>None\<close> when it is not set.
\<close>

definition OpenRouterConversacion :: "string option \<Rightarrow> string \<Rightarrow> excepcion + openrouter" where
  "OpenRouterConversacion clave modelo =
     (case clave of
        None \<Rightarrow> Inl ValueError
      | Some k \<Rightarrow>
          if k = [] then Inl ValueError
          else Inr \<lparr>api_key = k, modelo_or = nombre_completo modelo\<rparr>)"

text \<open>
  \<open>OpenRouterConversacion.generar_pregunta\<close>: the request is sent, and whatever the
  \<open>try\<close> raises is answered with a literal question (line 128).
\<close>

definition OpenRouter_generar_pregunta ::
  "(peticion \<Rightarrow> respuesta_http) \<Rightarrow> openrouter \<Rightarrow> turno list \<Rightarrow> string \<Rightarrow> string" where
  "OpenRouter_generar_pregunta post self conversacion prompt_base =
     (case procesar_respuesta (post (payload (modelo_or self) conversacion prompt_base)) of
        Inl e \<Rightarrow> pregunta_respaldo_transporte
      | Inr nueva_pregunta \<Rightarrow> nueva_pregunta)"

definition modelo_especifico :: "string option \<Rightarrow> string" where
  "modelo_especifico nombre_modelo =
     nombre_completo
       (case nombre_modelo of
          None \<Rightarrow> ''meta-llama/llama-3.3-8b-instruct:free''
        | Some n \<Rightarrow> if n = [] then ''meta-llama/llama-3.3-8b-instruct:free'' else n)"

text \<open>
  The function \<open>generar_pregunta\<close> of the module (lines 131 to 169). \<open>post\<close> is the
  remote service as the call meets it.
\<close>

definition generar_pregunta ::
  "string option \<Rightarrow> (peticion \<Rightarrow> respuesta_http) \<Rightarrow> turno list \<Rightarrow> string \<Rightarrow> string option \<Rightarrow> string" where
  "generar_pregunta clave post conversacion prompt_base nombre_modelo =
     (case OpenRouterConversacion clave (modelo_especifico nombre_modelo) of
        Inl e \<Rightarrow> pregunta_respaldo_general
      | Inr modelo \<Rightarrow> OpenRouter_generar_pregunta post modelo conversacion prompt_base)"

text \<open>
  For the statements below: the text at \<open>choices[0].message.content\<close> of a decoded
  answer, when the answer has that shape.
\<close>

definition contenido :: "json \<Rightarrow> string option" where
  "contenido resultado =
     (case resultado of
        JObject kvs \<Rightarrow>
          (case map_of kvs ''choices'' of
             Some (JArray (JObject c0 # otros)) \<Rightarrow>
               (case map_of c0 ''message'' of
                  Some (JObject m) \<Rightarrow>
                    (case map_of m ''content'' of
                       Some (JString s) \<Rightarrow> Some s
                     | _ \<Rightarrow> None)
                | _ \<Rightarrow> None)
           | _ \<Rightarrow> None)
      | _ \<Rightarrow> None)"

text \<open>
  For the statements below: no usable API key; and an answer of the service that is a
  failure, of the transport (the request raises, or the status is an error) or of the
  shape (the body is no JSON, or the text is not where it should be).
\<close>

definition sin_clave :: "string option \<Rightarrow> bool" where
  "sin_clave clave = (case clave of None \<Rightarrow> True | Some k \<Rightarrow> k = [])"

fun respuesta_fallida :: "respuesta_http \<Rightarrow> bool" where
  "respuesta_fallida (Lanza e) = True"
| "respuesta_fallida (Respuesta ok cuerpo) =
     (if ok then (case cuerpo of None \<Rightarrow> True | Some resultado \<Rightarrow> contenido resultado = None)
      else True)"

section \<open>The transcript (\<open>entrevista_logger.py\<close>)\<close>

subsection \<open>\<open>json.dump\<close> with \<open>ensure_ascii=False\<close> and \<open>indent=2\<close>\<close>

text \<open>
  A string is written between quotes; the quote, the backslash and the control
  characters are escaped, every other byte is written as it is.
\<close>

definition digito_hex :: "nat \<Rightarrow> char" where
  "digito_hex n = ''0123456789abcdef'' ! n"

definition escapar_caracter :: "char \<Rightarrow> string" where
  "escapar_caracter c =
     (if c = CHR 0x22 then [CHR 0x5C, CHR 0x22]
      else if c = CHR 0x5C then [CHR 0x5C, CHR 0x5C]
      else if c = CHR 0x0A then [CHR 0x5C, CHR ''n'']
      else if c = CHR 0x0D then [CHR 0x5C, CHR ''r'']
      else if c = CHR 0x09 then [CHR 0x5C, CHR ''t'']
      else if c = CHR 0x08 then [CHR 0x5C, CHR ''b'']
      else if c = CHR 0x0C then [CHR 0x5C, CHR ''f'']
      else if (of_char c :: nat) < 0x20 then
        [CHR 0x5C, CHR ''u'', CHR ''0'', CHR ''0'',
         digito_hex ((of_char c :: nat) div 16), digito_hex ((of_char c :: nat) mod 16)]
      else [c])"

definition escapar :: "string \<Rightarrow> string" where
  "escapar s = concat (map escapar_caracter s)"

definition comillas :: "string \<Rightarrow> string" where
  "comillas s = CHR 0x22 # escapar s @ [CHR 0x22]"

text \<open>The line break and the indentation of a nesting level.\<close>

definition nueva_linea :: "nat \<Rightarrow> string" where
  "nueva_linea nivel = CHR 0x0A # replicate (2 * nivel) CHR '' ''"

fun intercala :: "string \<Rightarrow> string list \<Rightarrow> string" where
  "intercala sep [] = []"
| "intercala sep [x] = x"
| "intercala sep (x # y # ys) = x @ sep @ intercala sep (y # ys)"

text \<open>
  The text of a value at a nesting level: an empty list or dictionary on one line,
  the items of any other one each on a line of its own, separated by a comma.
\<close>

fun dumps :: "nat \<Rightarrow> json \<Rightarrow> string" where
  "dumps nivel JNull = ''null''"
| "dumps nivel (JBool b) = (if b then ''true'' else ''false'')"
| "dumps nivel (JNumber n) = n"
| "dumps nivel (JString s) = comillas s"
| "dumps nivel (JArray xs) =
     (if xs = [] then ''[]''
      else ''['' @ nueva_linea (Suc nivel)
           @ intercala ('','' @ nueva_linea (Suc nivel)) (map (dumps (Suc nivel)) xs)
           @ nueva_linea nivel @ '']'')"
| "dumps nivel (JObject kvs) =
     (if kvs = [] then ''{}''
      else ''{'' @ nueva_linea (Suc nivel)
           @ intercala ('','' @ nueva_linea (Suc nivel))
               (map (\<lambda>kv. comillas (fst kv) @ '': '' @ dumps (Suc nivel) (snd kv)) kvs)
           @ nueva_linea nivel @ ''}'')"

text \<open>
  \<open>json.dump\<close> does not write this text at once: it writes the pieces that the
  encoder yields, one \<open>fp.write\<close> each (\<open>_make_iterencode\<close> in \<open>json/encoder.py\<close>), and
  the file, opened as text, encodes each piece when it is written. The pieces of a
  value: a scalar is one piece; a list yields its opening bracket with the first line
  break, a scalar item in one piece with the separator before it, a list or dictionary
  item after the separator; a dictionary yields the brace, the line break, and for each
  item the separator, the key and the colon as pieces of their own.
\<close>

fun iterencode :: "nat \<Rightarrow> json \<Rightarrow> string list"
  and iterencode_list :: "nat \<Rightarrow> string \<Rightarrow> json list \<Rightarrow> string list"
  and iterencode_dict :: "nat \<Rightarrow> bool \<Rightarrow> (string \<times> json) list \<Rightarrow> string list"
where
  "iterencode nivel JNull = [''null'']"
| "iterencode nivel (JBool b) = [if b then ''true'' else ''false'']"
| "iterencode nivel (JNumber n) = [n]"
| "iterencode nivel (JString s) = [comillas s]"
| "iterencode nivel (JArray []) = [''[]'']"
| "iterencode nivel (JArray (x # xs)) =
     iterencode_list (Suc nivel) (''['' @ nueva_linea (Suc nivel)) (x # xs)
       @ [nueva_linea nivel, '']'']"
| "iterencode nivel (JObject []) = [''{}'']"
| "iterencode nivel (JObject (kv # kvs)) =
     [''{'', nueva_linea (Suc nivel)] @ iterencode_dict (Suc nivel) True (kv # kvs)
       @ [nueva_linea nivel, ''}'']"
| "iterencode_list nivel buf [] = []"
| "iterencode_list nivel buf (v # vs) =
     (case v of
        JArray xs \<Rightarrow> buf # iterencode nivel v
      | JObject kvs \<Rightarrow> buf # iterencode nivel v
      | _ \<Rightarrow> [buf @ concat (iterencode nivel v)])
       @ iterencode_list nivel ('','' @ nueva_linea nivel) vs"
| "iterencode_dict nivel primero [] = []"
| "iterencode_dict nivel primero (kv # kvs) =
     (if primero then [] else ['','' @ nueva_linea nivel])
       @ [comillas (fst kv), '': ''] @ iterencode nivel (snd kv)
       @ iterencode_dict nivel False kvs"

subsection \<open>\<open>json.load\<close>\<close>

definition es_blanco :: "char \<Rightarrow> bool" where
  "es_blanco c = (c = CHR 0x20 \<or> c = CHR 0x09 \<or> c = CHR 0x0A \<or> c = CHR 0x0D)"

definition saltar_blancos :: "string \<Rightarrow> string" where
  "saltar_blancos s = dropWhile es_blanco s"

definition valor_hex :: "char \<Rightarrow> nat option" where
  "valor_hex c =
     map_of (zip ''0123456789abcdefABCDEF''
       [0, 1, 2, 3, 4, 5, 6, 7, 8, 9, 10, 11, 12, 13, 14, 15, 10, 11, 12, 13, 14, 15]) c"

text \<open>\<open>_decode_uXXXX\<close>: the number that four hexadecimal digits write.\<close>

definition hex4 :: "string \<Rightarrow> nat option" where
  "hex4 s =
     (case map valor_hex (take 4 s) of
        [Some a, Some b, Some c, Some d] \<Rightarrow> Some (((a * 16 + b) * 16 + c) * 16 + d)
      | _ \<Rightarrow> None)"

text \<open>The UTF-8 bytes of a code point.\<close>

definition utf8 :: "nat \<Rightarrow> string" where
  "utf8 n =
     (if n < 0x80 then [char_of n]
      else if n < 0x800 then [char_of (0xC0 + n div 64), char_of (0x80 + n mod 64)]
      else if n < 0x10000 then
        [char_of (0xE0 + n div 4096), char_of (0x80 + n div 64 mod 64), char_of (0x80 + n mod 64)]
      else
        [char_of (0xF0 + n div 262144), char_of (0x80 + n div 4096 mod 64),
         char_of (0x80 + n div 64 mod 64), char_of (0x80 + n mod 64)])"

text \<open>
  What follows \<open>\u\<close> in a string: the bytes of the character and the number of
  characters read. A high surrogate followed by the escape of a low one is one
  character.
\<close>

definition escape_u :: "string \<Rightarrow> (string \<times> nat) option" where
  "escape_u s =
     (case hex4 s of
        None \<Rightarrow> None
      | Some uni \<Rightarrow>
          if 0xD800 \<le> uni \<and> uni \<le> 0xDBFF \<and> take 2 (drop 4 s) = [CHR 0x5C, CHR ''u''] then
            (case hex4 (drop 6 s) of
               None \<Rightarrow> None
             | Some uni2 \<Rightarrow>
                 if 0xDC00 \<le> uni2 \<and> uni2 \<le> 0xDFFF
                 then Some (utf8 (0x10000 + ((uni - 0xD800) * 1024 + (uni2 - 0xDC00))), 10)
                 else Some (utf8 uni, 4))
          else Some (utf8 uni, 4))"

definition escape_simple :: "char \<Rightarrow> char option" where
  "escape_simple e =
     map_of [(CHR 0x22, CHR 0x22), (CHR 0x5C, CHR 0x5C), (CHR ''/'', CHR ''/''),
             (CHR ''b'', CHR 0x08), (CHR ''f'', CHR 0x0C), (CHR ''n'', CHR 0x0A),
             (CHR ''r'', CHR 0x0D), (CHR ''t'', CHR 0x09)] e"

text \<open>
  \<open>scanstring\<close>, from the character after the opening quote: the string and what
  follows its closing quote. A control character that is not escaped is an error.
\<close>

fun scanstring :: "string \<Rightarrow> (string \<times> string) option" where
  "scanstring [] = None"
| "scanstring (c # cs) =
     (if c = CHR 0x22 then Some ([], cs)
      else if c = CHR 0x5C then
        (case cs of
           [] \<Rightarrow> None
         | e # r \<Rightarrow>
             if e = CHR ''u'' then
               (case escape_u r of
                  None \<Rightarrow> None
                | Some (bytes, n) \<Rightarrow>
                    map_option (\<lambda>(s, fin). (bytes @ s, fin)) (scanstring (drop n r)))
             else
               (case escape_simple e of
                  None \<Rightarrow> None
                | Some d \<Rightarrow> map_option (\<lambda>(s, fin). (d # s, fin)) (scanstring r)))
      else if (of_char c :: nat) < 0x20 then None
      else map_option (\<lambda>(s, fin). (c # s, fin)) (scanstring cs))"

text \<open>
  A number, as the expression
  \<open>(-?(?:0|[1-9][0-9]*))(\.[0-9]+)?([eE][-+]?[0-9]+)?\<close> matches it: the numeral and
  what follows.
\<close>

definition es_digito :: "char \<Rightarrow> bool" where
  "es_digito c = (c \<in> set ''0123456789'')"

definition leer_entero :: "string \<Rightarrow> (string \<times> string) option" where
  "leer_entero s =
     (case s of
        [] \<Rightarrow> None
      | c # cs \<Rightarrow>
          if c = CHR ''0'' then Some ([c], cs)
          else if es_digito c then Some (c # takeWhile es_digito cs, dropWhile es_digito cs)
          else None)"

definition leer_fraccion :: "string \<Rightarrow> string \<times> string" where
  "leer_fraccion s =
     (case s of
        c # d # ds \<Rightarrow>
          if c = CHR ''.'' \<and> es_digito d
          then (c # d # takeWhile es_digito ds, dropWhile es_digito ds)
          else ([], s)
      | _ \<Rightarrow> ([], s))"

definition leer_exponente :: "string \<Rightarrow> string \<times> string" where
  "leer_exponente s =
     (case s of
        c # d # ds \<Rightarrow>
          if c = CHR ''e'' \<or> c = CHR ''E'' then
            (if es_digito d then (c # d # takeWhile es_digito ds, dropWhile es_digito ds)
             else if d = CHR ''-'' \<or> d = CHR ''+'' then
               (case ds of
                  f # fs \<Rightarrow>
                    if es_digito f
                    then (c # d # f # takeWhile es_digito fs, dropWhile es_digito fs)
                    else ([], s)
                | [] \<Rightarrow> ([], s))
             else ([], s))
          else ([], s)
      | _ \<Rightarrow> ([], s))"

definition leer_numero :: "string \<Rightarrow> (string \<times> string) option" where
  "leer_numero s =
     (let (signo, r0) = (if take 1 s = ''-'' then (''-'', drop 1 s) else ([], s))
      in case leer_entero r0 of
           None \<Rightarrow> None
         | Some (entero, r1) \<Rightarrow>
             (let (fraccion, r2) = leer_fraccion r1;
                  (exponente, r3) = leer_exponente r2
              in Some (signo @ entero @ fraccion @ exponente, r3)))"

text \<open>The values that are neither a string, a list nor a dictionary, in the order of \<open>scan_once\<close>.\<close>

definition leer_literal :: "string \<Rightarrow> (json \<times> string) option" where
  "leer_literal s =
     (if take 4 s = ''null'' then Some (JNull, drop 4 s)
      else if take 4 s = ''true'' then Some (JBool True, drop 4 s)
      else if take 5 s = ''false'' then Some (JBool False, drop 5 s)
      else case leer_numero s of
             Some (n, r) \<Rightarrow> Some (JNumber n, r)
           | None \<Rightarrow>
               if take 3 s = ''NaN'' then Some (JNumber ''NaN'', drop 3 s)
               else if take 8 s = ''Infinity'' then Some (JNumber ''Infinity'', drop 8 s)
               else if take 9 s = ''-Infinity'' then Some (JNumber ''-Infinity'', drop 9 s)
               else None)"

text \<open>
  A \<open>dict\<close> made from the pairs read: a key read again keeps its place and takes the
  later value.
\<close>

definition dict_de_pares :: "(string \<times> json) list \<Rightarrow> (string \<times> json) list" where
  "dict_de_pares kvs = foldl (\<lambda>d kv. AList.update (fst kv) (snd kv) d) [] kvs"

text \<open>
  The descent of \<open>scan_once\<close>, \<open>JSONArray\<close> and \<open>JSONObject\<close>. The first argument bounds
  the number of nested calls; \<open>parse_array\<close> starts at a value of the list,
  \<open>parse_object\<close> after the opening quote of a key.
\<close>

fun parse_value :: "nat \<Rightarrow> string \<Rightarrow> (json \<times> string) option"
  and parse_array :: "nat \<Rightarrow> string \<Rightarrow> (json list \<times> string) option"
  and parse_object :: "nat \<Rightarrow> string \<Rightarrow> ((string \<times> json) list \<times> string) option"
where
  "parse_value 0 s = None"
| "parse_value (Suc n) s =
     (case s of
        [] \<Rightarrow> None
      | c # cs \<Rightarrow>
          if c = CHR 0x22 then map_option (\<lambda>(t, r). (JString t, r)) (scanstring cs)
          else if c = CHR ''{'' then
            (case saltar_blancos cs of
               [] \<Rightarrow> None
             | d # r \<Rightarrow>
                 if d = CHR ''}'' then Some (JObject [], r)
                 else if d = CHR 0x22
                 then map_option (\<lambda>(kvs, fin). (JObject (dict_de_pares kvs), fin)) (parse_object n r)
                 else None)
          else if c = CHR ''['' then
            (case saltar_blancos cs of
               [] \<Rightarrow> None
             | d # r \<Rightarrow>
                 if d = CHR '']'' then Some (JArray [], r)
                 else map_option (\<lambda>(xs, fin). (JArray xs, fin)) (parse_array n (d # r)))
          else leer_literal s)"
| "parse_array 0 s = None"
| "parse_array (Suc n) s =
     (case parse_value n s of
        None \<Rightarrow> None
      | Some (v, r) \<Rightarrow>
          (case saltar_blancos r of
             [] \<Rightarrow> None
           | d # r' \<Rightarrow>
               if d = CHR '']'' then Some ([v], r')
               else if d = CHR '',''
               then map_option (\<lambda>(xs, fin). (v # xs, fin)) (parse_array n (saltar_blancos r'))
               else None))"
| "parse_object 0 s = None"
| "parse_object (Suc n) s =
     (case scanstring s of
        None \<Rightarrow> None
      | Some (k, r) \<Rightarrow>
          (case saltar_blancos r of
             [] \<Rightarrow> None
           | d # r' \<Rightarrow>
               if d \<noteq> CHR '':'' then None
               else
                 (case parse_value n (saltar_blancos r') of
                    None \<Rightarrow> None
                  | Some (v, r2) \<Rightarrow>
                      (case saltar_blancos r2 of
                         [] \<Rightarrow> None
                       | d2 # r3 \<Rightarrow>
                           if d2 = CHR ''}'' then Some ([(k, v)], r3)
                           else if d2 = CHR '','' then
                             (case saltar_blancos r3 of
                                [] \<Rightarrow> None
                              | d3 # r4 \<Rightarrow>
                                  if d3 = CHR 0x22
                                  then map_option (\<lambda>(kvs, fin). ((k, v) # kvs, fin))
                                         (parse_object n r4)
                                  else None)
                           else None))))"

text \<open>
  \<open>json.loads\<close>: one value, with white space around it and nothing else; \<open>None\<close> is
  \<open>JSONDecodeError\<close>. Of any two calls nested in each other one reads a character, so
  twice the length of the text is taken as the bound on the nesting.
\<close>

definition json_loads :: "string \<Rightarrow> json option" where
  "json_loads s =
     (case parse_value (2 * length s + 2) (saltar_blancos s) of
        None \<Rightarrow> None
      | Some (v, r) \<Rightarrow> if saltar_blancos r = [] then Some v else None)"

subsection \<open>\<open>EntrevistaLogger\<close>\<close>

record entrevista_logger =
  directorio :: string
  archivo_salida :: string

text \<open>\<open>os.path.join\<close> of two components, on a POSIX system.\<close>

definition path_join :: "string \<Rightarrow> string \<Rightarrow> string" where
  "path_join a b =
     (if take 1 b = ''/'' then b
      else if a = [] \<or> last a = CHR ''/'' then a @ b
      else a @ ''/'' @ b)"

text \<open>
  \<open>__init__\<close>; \<open>marca\<close> is \<open>datetime.now().strftime("%Y%m%d_%H%M%S")\<close> at that moment.
\<close>

definition EntrevistaLogger :: "string \<Rightarrow> string \<Rightarrow> entrevista_logger" where
  "EntrevistaLogger dir marca =
     \<lparr>directorio = dir, archivo_salida = path_join dir (''entrevista_'' @ marca @ ''.json'')\<rparr>"

definition turno_json :: "turno \<Rightarrow> json" where
  "turno_json t = JObject [(''rol'', JString (rol t)), (''texto'', JString (texto t))]"

text \<open>The dictionary \<open>datos\<close> of lines 43 to 46.\<close>

definition datos :: "string \<Rightarrow> turno list \<Rightarrow> json" where
  "datos ahora conversacion =
     JObject [(''timestamp'', JString ahora),
              (''conversacion'', JArray (map turno_json conversacion))]"

text \<open>
  \<open>guardar_conversacion\<close>: \<open>ahora\<close> is \<open>datetime.datetime.now().isoformat()\<close> as the call
  reads it, \<open>archivos\<close> the files by path. The file is opened with mode \<open>w\<close>: what it
  held is gone. The pieces are written one by one; the first that cannot be encoded
  raises \<open>UnicodeEncodeError\<close>, which nothing catches, and the \<open>with\<close> closes the file
  with the pieces written before it. The result is the files after the call, and the
  path returned or the exception raised. The directory is taken to exist and to be
  writable (\<open>ejecutar_entrevista\<close> makes it at line 55).
\<close>

definition guardar_conversacion ::
  "entrevista_logger \<Rightarrow> string \<Rightarrow> turno list \<Rightarrow> (string \<rightharpoonup> string)
     \<Rightarrow> (string \<rightharpoonup> string) \<times> (excepcion + string)" where
  "guardar_conversacion self ahora conversacion archivos =
     (let trozos = iterencode 0 (datos ahora conversacion) in
      if list_all codificable trozos
      then (archivos(archivo_salida self \<mapsto> concat trozos), Inr (archivo_salida self))
      else (archivos(archivo_salida self \<mapsto> concat (takeWhile codificable trozos)),
            Inl UnicodeEncodeError))"

text \<open>
  The conversations that can be written: neither the clock text nor a role nor a text
  holds a surrogate.
\<close>

definition escribible :: "string \<Rightarrow> turno list \<Rightarrow> bool" where
  "escribible ahora c =
     (codificable ahora
      \<and> list_all (\<lambda>t. codificable (rol t) \<and> codificable (texto t)) c)"

text \<open>
  \<open>cargar_conversacion\<close>: a missing file and a text that is no JSON give the empty
  list; a document that is no dictionary has no \<open>get\<close>, and the \<open>AttributeError\<close> is
  not caught. The file is taken to hold UTF-8 text whose nesting the decoder can
  follow: on other bytes \<open>json.load\<close> raises \<open>UnicodeDecodeError\<close>, and on some
  thousand levels of nesting \<open>RecursionError\<close>, and neither is caught. Every file
  that \<open>guardar_conversacion\<close> writes is of that kind.
\<close>

definition cargar_conversacion ::
  "entrevista_logger \<Rightarrow> string option \<Rightarrow> (string \<rightharpoonup> string) \<Rightarrow> excepcion + json" where
  "cargar_conversacion self archivo archivos =
     (case archivos (case archivo of None \<Rightarrow> archivo_salida self | Some a \<Rightarrow> a) of
        None \<Rightarrow> Inr (JArray [])
      | Some escrito \<Rightarrow>
          (case json_loads escrito of
             None \<Rightarrow> Inr (JArray [])
           | Some (JObject kvs) \<Rightarrow>
               Inr (case map_of kvs ''conversacion'' of None \<Rightarrow> JArray [] | Some v \<Rightarrow> v)
           | Some _ \<Rightarrow> Inl AttributeError))"

section \<open>The session (\<open>ejecutar_entrevista\<close> in \<open>main.py\<close>)\<close>

definition pregunta_inicial :: string where
  "pregunta_inicial =
     ''Hola, bienvenido a esta entrevista. '' @ abre_pregunta @ ''Podr'' @ i_aguda @
     ''as presentarte brevemente y contarme sobre tu experiencia profesional?''"

text \<open>Line 108: one of the two closing markers occurs in the question in lower case.\<close>

definition es_cierre :: "string \<Rightarrow> bool" where
  "es_cierre nueva_pregunta =
     (sublist ''gracias por tu tiempo'' (lower nueva_pregunta)
      \<or> sublist ''finalizar'' (lower nueva_pregunta))"

text \<open>
  What the session is given and does not change: the API key of the environment, the
  text of \<open>data/prompt_base.txt\<close> and the model chosen on the command line. Whether the
  questions are also spoken (\<open>usar_tts\<close>) changes no state of the session:
  \<open>texto_a_voz\<close> catches its own exceptions.
\<close>

record configuracion =
  OPENROUTER_API_KEY :: "string option"
  prompt :: string
  modelo_llm :: string

text \<open>
  The points of the loop where the program waits for a call to return, each with the
  line of the call, and the two ends. The names of the states are those of the
  specification. Between the capture and the append, and between the generation and
  the append, the text in flight is part of the point.
\<close>

datatype punto =
  AwaitingCandidateInput
  | Capturing
  | ShowingAnswer string
  | PersistingAnswer
  | GeneratingNextQuestion
  | PresentingClosing string
  | PersistingClosing
  | Presenting string
  | PersistingOnInterrupt
  | Terminated
  | Crashed

text \<open>
  How the pending call ends, or what happens during it: \<open>input\<close> returns (line 82);
  \<open>grabar_y_transcribir\<close> returns a text (line 86); the text is shown, and spoken if
  asked (lines 93, 109 to 111, 121 to 124: \<open>print\<close> returns, which for a text with a
  surrogate it does where the error handler of the terminal is \<open>surrogateescape\<close>, as
  in the POSIX locale, for U+DC80 to U+DCFF; where it raises, the event is
  \<open>OtraExcepcion\<close>); \<open>guardar_conversacion\<close> has run, having
  read the clock (lines 102, 116, 137): it has written and returned, or has raised
  \<open>UnicodeEncodeError\<close>; the service behaves in some way during \<open>generar_pregunta\<close>
  (line 105); \<open>KeyboardInterrupt\<close> is raised and leaves the pending call; another
  exception leaves the call.

  \<open>InterrupcionTragada\<close>: \<open>KeyboardInterrupt\<close> is raised inside one of the two \<open>try\<close>
  blocks of the modules whose handler is a bare \<open>except:\<close>, which catches it as it
  catches everything: around \<open>os.remove\<close> in \<open>grabar_y_transcribir\<close> (lines 106 to
  109 of \<open>whisper_stt.py\<close>), and around \<open>response.json()\<close> for an answer that is not
  \<open>ok\<close> in \<open>generar_pregunta\<close> (lines 95 to 103 of \<open>llm_conversacion.py\<close>). The
  handler passes, the pending call goes on, and the interrupt never reaches
  \<open>ejecutar_entrevista\<close>.
\<close>

datatype evento =
  Enter
  | Transcrito string
  | Mostrado
  | Escrito string
  | Respondido "peticion \<Rightarrow> respuesta_http"
  | KeyboardInterrupt
  | InterrupcionTragada
  | OtraExcepcion

text \<open>The calls to the collaborators that have returned, in order.\<close>

datatype accion =
  Capturo string
  | Persistio "turno list"
  | Genero string

record sesion =
  conversacion :: "turno list"
  logger :: entrevista_logger
  disco :: "string \<rightharpoonup> string"
  punto :: punto
  traza :: "accion list"

text \<open>
  A call of \<open>guardar_conversacion\<close> by the controller, and the point that follows when
  it returns. When it raises, the exception is no \<open>KeyboardInterrupt\<close>: it leaves the
  \<open>try\<close> of line 79, or the handler of line 132, and the program, and the file keeps
  what was written of it.
\<close>

definition persistir :: "sesion \<Rightarrow> string \<Rightarrow> punto \<Rightarrow> sesion" where
  "persistir s ahora siguiente =
     (case guardar_conversacion (logger s) ahora (conversacion s) (disco s) of
        (archivos, Inr ruta) \<Rightarrow>
          s\<lparr>disco := archivos, traza := traza s @ [Persistio (conversacion s)],
            punto := siguiente\<rparr>
      | (archivos, Inl e) \<Rightarrow> s\<lparr>disco := archivos, punto := Crashed\<rparr>)"

definition agregar :: "sesion \<Rightarrow> string \<Rightarrow> string \<Rightarrow> sesion" where
  "agregar s quien dicho = s\<lparr>conversacion := conversacion s @ [\<lparr>rol = quien, texto = dicho\<rparr>]\<rparr>"

text \<open>
  One step of the session, by the point it is at and the way the pending call ends.
  The \<open>try\<close> of line 79 covers the whole loop, so a \<open>KeyboardInterrupt\<close> that leaves
  the pending call leads from every point of the loop to the handler of line 132, and
  any other exception leaves the program. An interrupt that a module swallows changes
  nothing: the session stays at the capture or at the generation, which then ends
  as it would have. After the \<open>break\<close> and after the handler nothing runs. An event
  that does not answer the pending call is not consumed.
\<close>

fun transicion :: "configuracion \<Rightarrow> sesion \<Rightarrow> punto \<Rightarrow> evento \<Rightarrow> sesion" where
  "transicion cfg s Terminated ev = s"
| "transicion cfg s Crashed ev = s"
| "transicion cfg s PersistingOnInterrupt (Escrito ahora) = persistir s ahora Terminated"
| "transicion cfg s PersistingOnInterrupt KeyboardInterrupt = s\<lparr>punto := Crashed\<rparr>"
| "transicion cfg s PersistingOnInterrupt OtraExcepcion = s\<lparr>punto := Crashed\<rparr>"
| "transicion cfg s PersistingOnInterrupt ev = s"
| "transicion cfg s Capturing InterrupcionTragada = s"
| "transicion cfg s GeneratingNextQuestion InterrupcionTragada = s"
| "transicion cfg s p KeyboardInterrupt = s\<lparr>punto := PersistingOnInterrupt\<rparr>"
| "transicion cfg s p OtraExcepcion = s\<lparr>punto := Crashed\<rparr>"
| "transicion cfg s AwaitingCandidateInput Enter = s\<lparr>punto := Capturing\<rparr>"
| "transicion cfg s Capturing (Transcrito respuesta) =
     (if strip respuesta = []
      then s\<lparr>punto := AwaitingCandidateInput, traza := traza s @ [Capturo respuesta]\<rparr>
      else s\<lparr>punto := ShowingAnswer respuesta, traza := traza s @ [Capturo respuesta]\<rparr>)"
| "transicion cfg s (ShowingAnswer respuesta) Mostrado =
     (agregar s candidato respuesta)\<lparr>punto := PersistingAnswer\<rparr>"
| "transicion cfg s PersistingAnswer (Escrito ahora) =
     persistir s ahora GeneratingNextQuestion"
| "transicion cfg s GeneratingNextQuestion (Respondido post) =
     (let nueva_pregunta =
            generar_pregunta (OPENROUTER_API_KEY cfg) post (conversacion s) (prompt cfg)
              (Some (modelo_llm cfg))
      in s\<lparr>punto := (if es_cierre nueva_pregunta then PresentingClosing nueva_pregunta
                      else Presenting nueva_pregunta),
           traza := traza s @ [Genero nueva_pregunta]\<rparr>)"
| "transicion cfg s (PresentingClosing nueva_pregunta) Mostrado =
     (agregar s entrevistador nueva_pregunta)\<lparr>punto := PersistingClosing\<rparr>"
| "transicion cfg s PersistingClosing (Escrito ahora) = persistir s ahora Terminated"
| "transicion cfg s (Presenting nueva_pregunta) Mostrado =
     (agregar s entrevistador nueva_pregunta)\<lparr>punto := AwaitingCandidateInput\<rparr>"
| "transicion cfg s p ev = s"

definition paso :: "configuracion \<Rightarrow> sesion \<Rightarrow> evento \<Rightarrow> sesion" where
  "paso cfg s ev = transicion cfg s (punto s) ev"

definition ejecutar :: "configuracion \<Rightarrow> sesion \<Rightarrow> evento list \<Rightarrow> sesion" where
  "ejecutar cfg s evs = foldl (paso cfg) s evs"

text \<open>
  The session when it enters the \<open>try\<close> (lines 58 to 79): the logger is made, the
  opening question is shown and is the only turn.
\<close>

definition inicio :: "entrevista_logger \<Rightarrow> (string \<rightharpoonup> string) \<Rightarrow> sesion" where
  "inicio lg archivos =
     \<lparr>conversacion = [\<lparr>rol = entrevistador, texto = pregunta_inicial\<rparr>],
      logger = lg, disco = archivos, punto = AwaitingCandidateInput, traza = []\<rparr>"



text \<open>The events of a run of captures, each after its \<open>ENTER\<close>.\<close>

definition capturas :: "string list \<Rightarrow> evento list" where
  "capturas rs = concat (map (\<lambda>r. [Enter, Transcrito r]) rs)"

text \<open>The roles of a conversation that starts with \<open>quien\<close> and alternates.\<close>

definition otro :: "string \<Rightarrow> string" where
  "otro quien = (if quien = entrevistador then candidato else entrevistador)"

fun alterna :: "string \<Rightarrow> turno list \<Rightarrow> bool" where
  "alterna quien [] = True"
| "alterna quien (t # ts) = (rol t = quien \<and> alterna (otro quien) ts)"

text \<open>A configuration, a logger and an answer of the service, for the examples.\<close>

definition cfg_ejemplo :: configuracion where
  "cfg_ejemplo =
     \<lparr>OPENROUTER_API_KEY = Some ''sk-1'', prompt = ''Eres un entrevistador'',
      modelo_llm = ''meta-llama''\<rparr>"

definition logger_ejemplo :: entrevista_logger where
  "logger_ejemplo = EntrevistaLogger ''transcripts'' ''20240101_100000''"

definition despedida :: json where
  "despedida =
     JObject [(''choices'', JArray [JObject [(''message'',
       JObject [(''role'', JString ''assistant''),
                (''content'', JString ''Muchas GRACIAS por tu Tiempo.'')])]])]"

text \<open>
  A lone surrogate, U+DC80, and two answers of the service whose text holds it: a
  question, and a question with a closing marker.
\<close>

definition sustituto :: string where
  "sustituto = [CHR 0xED, CHR 0xB2, CHR 0x80]"

definition pregunta_con_sustituto :: json where
  "pregunta_con_sustituto =
     JObject [(''choices'', JArray [JObject [(''message'',
       JObject [(''role'', JString ''assistant''),
                (''content'', JString (''Sigamos '' @ sustituto))])]])]"



fun ultimo_esperado :: "punto \<Rightarrow> string option" where
  "ultimo_esperado AwaitingCandidateInput = Some entrevistador"
| "ultimo_esperado Capturing = Some entrevistador"
| "ultimo_esperado (ShowingAnswer r) = Some entrevistador"
| "ultimo_esperado PersistingAnswer = Some candidato"
| "ultimo_esperado GeneratingNextQuestion = Some candidato"
| "ultimo_esperado (PresentingClosing q) = Some candidato"
| "ultimo_esperado PersistingClosing = Some entrevistador"
| "ultimo_esperado (Presenting q) = Some candidato"
| "ultimo_esperado PersistingOnInterrupt = None"
| "ultimo_esperado Terminated = None"
| "ultimo_esperado Crashed = None"

definition invariante :: "sesion \<Rightarrow> bool" where
  "invariante s =
     (conversacion s \<noteq> [] \<and> alterna entrevistador (conversacion s)
      \<and> (case ultimo_esperado (punto s) of
            None \<Rightarrow> True
          | Some quien \<Rightarrow> rol (last (conversacion s)) = quien))"

section \<open>Properties\<close>

subsection \<open>The message list\<close>




subsection \<open>The generated question\<close>

lemma no_message_en_caracter: "\<not> sublist ''message'' (primer_caracter s)"
proof
  assume "sublist ''message'' (primer_caracter s)"
  then have "length ''message'' \<le> length (primer_caracter s)"
    by (rule sublist_length_le)
  moreover have "length (primer_caracter s) \<le> 4"
    by (auto simp: primer_caracter_def Let_def)
  ultimately show False by simp
qed

lemma map_of_in: "map_of kvs k = Some v \<Longrightarrow> k \<in> fst ` set kvs"
  by (metis domI dom_map_of_conv_image_fst)

lemma extraer_bien:
  assumes "contenido r = Some s"
  shows "extraer_pregunta r = Inr (strip (replace ''Entrevistador:'' [] (strip s)))"
proof -
  from assms obtain kvs c0 otros m where
    r: "r = JObject kvs" and
    ch: "map_of kvs ''choices'' = Some (JArray (JObject c0 # otros))" and
    me: "map_of c0 ''message'' = Some (JObject m)" and
    co: "map_of m ''content'' = Some (JString s)"
    by (auto simp: contenido_def split: json.splits option.splits list.splits)
  have a: "tiene_choices r = Inr True"
    using map_of_in [OF ch] by (simp add: tiene_choices_def seguido_def r ch)
  have b: "tiene_content r = Inr True"
    using map_of_in [OF me] map_of_in [OF co] 
    by (simp add: tiene_content_def seguido_def r ch me co)
  have c: "leer_content r = Inr (JString s)"
    by (simp add: leer_content_def seguido_def r ch me co)
  show ?thesis
    by (simp add: extraer_pregunta_def a b c seguido_def)
qed

lemma extraer_mal:
  assumes "contenido r = None"
  shows "extraer_pregunta r = Inr pregunta_respaldo_forma \<or> (\<exists>e. extraer_pregunta r = Inl e)"
  using assms no_message_en_caracter
  unfolding extraer_pregunta_def tiene_choices_def tiene_content_def leer_content_def contenido_def seguido_def
  by (auto split: json.splits option.splits list.splits sum.splits if_splits)

lemma espacio_final_rev: "espacio_final s = find (\<lambda>w. prefix (rev w) (rev s)) espacios"
  by (simp add: espacio_final_def suffix_to_prefix)

lemmas evalua_strip =
  strip_def lstrip.simps rstrip.simps espacio_inicial_def espacio_final_rev espacios_def

lemma strip_Nil: "strip [] = []"
  by (simp add: evalua_strip)

lemma replace_Nil: "replace old new [] = []"
  by (simp add: replace.simps)

lemma respaldos_no_vacios:
  "pregunta_respaldo_forma \<noteq> []" "pregunta_respaldo_transporte \<noteq> []"
  "pregunta_respaldo_general \<noteq> []"
  by (simp_all add: pregunta_respaldo_forma_def pregunta_respaldo_transporte_def
      pregunta_respaldo_general_def)

lemma generar_sin_clave:
  "sin_clave clave \<Longrightarrow> generar_pregunta clave post c p nm = pregunta_respaldo_general"
  by (auto simp: sin_clave_def generar_pregunta_def OpenRouterConversacion_def split: option.splits)

lemma generar_con_clave:
  "\<not> sin_clave clave \<Longrightarrow>
     generar_pregunta clave post c p nm =
       (case procesar_respuesta (post (payload (modelo_especifico nm) c p)) of
          Inl e \<Rightarrow> pregunta_respaldo_transporte
        | Inr q \<Rightarrow> q)"
  by (auto simp: sin_clave_def generar_pregunta_def OpenRouterConversacion_def
      OpenRouter_generar_pregunta_def modelo_especifico_def nombre_completo_def modelo_mapping_def
      split: option.splits)

lemma procesar_fallida:
  "respuesta_fallida r \<Longrightarrow>
     procesar_respuesta r = Inr pregunta_respaldo_forma \<or> (\<exists>e. procesar_respuesta r = Inl e)"
  by (cases r) (auto split: if_splits option.splits dest: extraer_mal)

lemma generar_fallida:
  assumes "\<not> sin_clave clave" and "respuesta_fallida (post (payload (modelo_especifico nm) c p))"
  shows "generar_pregunta clave post c p nm = pregunta_respaldo_forma
       \<or> generar_pregunta clave post c p nm = pregunta_respaldo_transporte"
  using procesar_fallida [OF assms(2)] by (auto simp: generar_con_clave [OF assms(1)])

text \<open>
  C2, as the code has it. \<open>generar_pregunta\<close> returns a text whatever the service does
  (every exception of the request and of the decoding is caught). With no API key it
  returns a literal question. With a key, a failure of the transport or of the shape
  of the answer gives one of two literal questions, and a request that raises gives the
  second of them. The three literal questions are not empty. An answer of the expected
  shape gives its text, stripped, with \<open>Entrevistador:\<close> removed and stripped again.
\<close>

theorem generar_pregunta_respaldos:
  "(sin_clave clave \<longrightarrow> generar_pregunta clave post c p nm = pregunta_respaldo_general)
   \<and> (\<not> sin_clave clave \<and> respuesta_fallida (post (payload (modelo_especifico nm) c p)) \<longrightarrow>
        generar_pregunta clave post c p nm = pregunta_respaldo_forma
        \<or> generar_pregunta clave post c p nm = pregunta_respaldo_transporte)
   \<and> (\<forall>e. \<not> sin_clave clave \<and> post (payload (modelo_especifico nm) c p) = Lanza e \<longrightarrow>
        generar_pregunta clave post c p nm = pregunta_respaldo_transporte)
   \<and> (\<forall>resultado s. \<not> sin_clave clave
          \<and> post (payload (modelo_especifico nm) c p) = Respuesta True (Some resultado)
          \<and> contenido resultado = Some s \<longrightarrow>
        generar_pregunta clave post c p nm = strip (replace ''Entrevistador:'' [] (strip s)))
   \<and> pregunta_respaldo_forma \<noteq> [] \<and> pregunta_respaldo_transporte \<noteq> []
   \<and> pregunta_respaldo_general \<noteq> []"
proof -
  have "\<not> sin_clave clave \<Longrightarrow> post (payload (modelo_especifico nm) c p) = Lanza e \<Longrightarrow>
        generar_pregunta clave post c p nm = pregunta_respaldo_transporte" for e
    by (simp add: generar_con_clave)
  moreover have "\<not> sin_clave clave \<Longrightarrow>
        post (payload (modelo_especifico nm) c p) = Respuesta True (Some resultado) \<Longrightarrow>
        contenido resultado = Some s \<Longrightarrow>
        generar_pregunta clave post c p nm = strip (replace ''Entrevistador:'' [] (strip s))"
    for resultado s
    by (simp add: generar_con_clave extraer_bien)
  ultimately show ?thesis
    using generar_sin_clave generar_fallida respaldos_no_vacios by blast
qed

theorem generar_pregunta_respaldos_witness:
  "generar_pregunta (Some ''sk-1'') (\<lambda>pet. Lanza RequestException)
       [\<lparr>rol = entrevistador, texto = ''Hola''\<rparr>] ''Eres un entrevistador'' None
     = pregunta_respaldo_transporte
   \<and> generar_pregunta None (\<lambda>pet. Lanza RequestException)
       [\<lparr>rol = entrevistador, texto = ''Hola''\<rparr>] ''Eres un entrevistador'' None
     = pregunta_respaldo_general
   \<and> generar_pregunta (Some ''sk-1'')
       (\<lambda>pet. Respuesta True (Some (JObject [(''choices'', JArray [JObject [(''message'',
          JObject [(''content'', JString ''Entrevistador: Hola'')])]])])))
       [\<lparr>rol = entrevistador, texto = ''Hola''\<rparr>] ''Eres un entrevistador'' None
     = ''Hola''"
proof -
  have k: "\<not> sin_clave (Some ''sk-1'')" "sin_clave None"
    by (simp_all add: sin_clave_def)
  have s: "strip (replace ''Entrevistador:'' [] (strip ''Entrevistador: Hola'')) = ''Hola''"
    by (simp add: evalua_strip replace.simps)
  have co: "contenido (JObject [(''choices'', JArray [JObject [(''message'',
          JObject [(''content'', JString ''Entrevistador: Hola'')])]])]) = Some ''Entrevistador: Hola''"
    by (simp add: contenido_def)
  show ?thesis
    using k s co
      generar_pregunta_respaldos [of "Some ''sk-1''" "\<lambda>pet. Lanza RequestException"
        "[\<lparr>rol = entrevistador, texto = ''Hola''\<rparr>]" "''Eres un entrevistador''" None]
      generar_pregunta_respaldos [of None "\<lambda>pet. Lanza RequestException"
        "[\<lparr>rol = entrevistador, texto = ''Hola''\<rparr>]" "''Eres un entrevistador''" None]
      generar_pregunta_respaldos [of "Some ''sk-1''" "\<lambda>pet. Respuesta True (Some (JObject [(''choices'', JArray [JObject [(''message'',
          JObject [(''content'', JString ''Entrevistador: Hola'')])]])]))"
        "[\<lparr>rol = entrevistador, texto = ''Hola''\<rparr>]" "''Eres un entrevistador''" None]
    by simp
qed

text \<open>
  C2 as stated fails: an answer of the expected shape whose text is empty gives the
  empty question.
\<close>

theorem generar_pregunta_vacia:
  "generar_pregunta (Some ''sk-1'')
       (\<lambda>pet. Respuesta True (Some (JObject [(''choices'', JArray [JObject [(''message'',
          JObject [(''content'', JString [])])]])])))
       [\<lparr>rol = entrevistador, texto = ''Hola''\<rparr>] ''Eres un entrevistador'' None
     = []"
  by (simp add: generar_pregunta_def OpenRouterConversacion_def OpenRouter_generar_pregunta_def
      extraer_pregunta_def tiene_choices_def tiene_content_def leer_content_def seguido_def
      strip_Nil replace_Nil)

subsection \<open>The request that is sent\<close>



subsection \<open>Reading back what was written\<close>

lemma saltar_blancos_no_blanco: "\<not> es_blanco c \<Longrightarrow> saltar_blancos (c # r) = c # r"
  by (simp add: saltar_blancos_def)

lemma saltar_nueva_linea: "\<not> es_blanco c \<Longrightarrow> saltar_blancos (nueva_linea n @ c # r) = c # r"
proof -
  assume c: "\<not> es_blanco c"
  have "\<And>x. x \<in> set (nueva_linea n) \<Longrightarrow> es_blanco x"
    by (auto simp: nueva_linea_def es_blanco_def)
  then have "dropWhile es_blanco (nueva_linea n @ c # r) = dropWhile es_blanco (c # r)"
    by (rule dropWhile_append2)
  with c show ?thesis by (simp add: saltar_blancos_def)
qed

lemma valor_digito_hex_todos: "\<forall>k \<in> set [0..<16]. valor_hex (digito_hex k) = Some k"
  by code_simp

lemma valor_digito_hex: "k < 16 \<Longrightarrow> valor_hex (digito_hex k) = Some k"
  using valor_digito_hex_todos by simp

lemma escape_u_control:
  assumes "(of_char c :: nat) < 0x20"
  shows "escape_u (CHR ''0'' # CHR ''0'' # digito_hex (of_char c div 16) # digito_hex (of_char c mod 16) # t)
         = Some ([c], 4)"
proof -
  let ?n = "of_char c :: nat"
  have h: "valor_hex (digito_hex (?n div 16)) = Some (?n div 16)"
     "valor_hex (digito_hex (?n mod 16)) = Some (?n mod 16)"
    using assms by (auto intro!: valor_digito_hex)
  have z: "valor_hex CHR ''0'' = Some 0" by (simp add: valor_hex_def)
  have "hex4 (CHR ''0'' # CHR ''0'' # digito_hex (?n div 16) # digito_hex (?n mod 16) # t) = Some ?n"
    by (simp add: hex4_def h z)
  moreover have "utf8 ?n = [c]" using assms by (simp add: utf8_def)
  ultimately show ?thesis using assms by (simp add: escape_u_def)
qed

lemma scanstring_caracter:
  "scanstring (escapar_caracter c @ t) = map_option (\<lambda>(s, fin). (c # s, fin)) (scanstring t)"
proof -
  consider (q) "c = CHR 0x22" | (b) "c = CHR 0x5C" | (n) "c = CHR 0x0A" | (r) "c = CHR 0x0D"
    | (t) "c = CHR 0x09" | (bs) "c = CHR 0x08" | (f) "c = CHR 0x0C"
    | (u) "c \<noteq> CHR 0x22" "c \<noteq> CHR 0x5C" "c \<noteq> CHR 0x0A" "c \<noteq> CHR 0x0D" "c \<noteq> CHR 0x09"
          "c \<noteq> CHR 0x08" "c \<noteq> CHR 0x0C" "(of_char c :: nat) < 0x20"
    | (o) "c \<noteq> CHR 0x22" "c \<noteq> CHR 0x5C" "\<not> (of_char c :: nat) < 0x20"
    by blast
  then show ?thesis
  proof cases
    case u
    then show ?thesis
      by (simp add: escapar_caracter_def escape_u_control)
  next
    case o
    then have "escapar_caracter c = [c]"
      by (auto simp: escapar_caracter_def)
    with o show ?thesis by simp
  qed (simp_all add: escapar_caracter_def escape_simple_def)
qed

lemma scanstring_escapar: "scanstring (escapar s @ CHR 0x22 # r) = Some (s, r)"
  by (induction s) (simp_all add: escapar_def scanstring_caracter)

lemma parse_cadena: "parse_value (Suc n) (CHR 0x22 # escapar s @ CHR 0x22 # r) = Some (JString s, r)"
  by (simp add: scanstring_escapar)

lemma saltar_blancos_blanco: "es_blanco c \<Longrightarrow> saltar_blancos (c # r) = saltar_blancos r"
  by (simp add: saltar_blancos_def)

lemma saltar_blancos_Nil: "saltar_blancos [] = []"
  by (simp add: saltar_blancos_def)

lemmas lee_json =
  saltar_blancos_no_blanco saltar_blancos_blanco saltar_nueva_linea saltar_blancos_Nil
  es_blanco_def scanstring_escapar comillas_def

lemma dumps_turno:
  "dumps nivel (turno_json t) =
     CHR ''{'' # nueva_linea (Suc nivel) @ CHR 0x22 # escapar ''rol'' @ CHR 0x22 # CHR '':'' # CHR '' ''
       # CHR 0x22 # escapar (rol t) @ CHR 0x22 # CHR '','' # nueva_linea (Suc nivel)
       @ CHR 0x22 # escapar ''texto'' @ CHR 0x22 # CHR '':'' # CHR '' ''
       # CHR 0x22 # escapar (texto t) @ CHR 0x22 # nueva_linea nivel @ ''}''"
  by (simp add: turno_json_def comillas_def)

lemma parse_turno:
  "parse_value (Suc (Suc (Suc (Suc n)))) (dumps nivel (turno_json t) @ r) = Some (turno_json t, r)"
  unfolding dumps_turno
  by (simp add: lee_json) (simp add: turno_json_def dict_de_pares_def)

lemma saltar_antes_de_turnos:
  "saltar_blancos
     (nueva_linea k @ intercala sep (dumps nivel (turno_json t) # map (\<lambda>a. dumps nivel (turno_json a)) ts) @ r)
     = intercala sep (dumps nivel (turno_json t) # map (\<lambda>a. dumps nivel (turno_json a)) ts) @ r"
  by (cases ts) (simp_all add: dumps_turno lee_json)

lemma parse_turnos:
  "length ts + 5 \<le> n \<Longrightarrow>
     parse_array n
       (intercala (CHR '','' # nueva_linea k)
          (dumps nivel (turno_json t) # map (\<lambda>a. dumps nivel (turno_json a)) ts)
          @ nueva_linea k' @ CHR '']'' # r)
     = Some (turno_json t # map turno_json ts, r)"
proof (induction ts arbitrary: t n)
  case Nil
  then have n: "n = Suc (Suc (Suc (Suc (Suc (n - 5)))))"
    by simp
  show ?case
    by (subst n) (simp add: parse_turno lee_json del: parse_value.simps)
next
  case (Cons u ts)
  then obtain m where n: "n = Suc m" and m: "length ts + 5 \<le> m" and m4: "4 \<le> m"
    by (cases n) auto
  from m4 have j: "m = Suc (Suc (Suc (Suc (m - 4))))"
    by simp
  have v: "parse_value m (dumps nivel (turno_json t) @ r') = Some (turno_json t, r')" for r'
    by (subst j) (rule parse_turno)
  show ?case
    unfolding n
    by (simp add: v saltar_blancos_no_blanco es_blanco_def saltar_antes_de_turnos Cons.IH [OF m]
        del: parse_value.simps)
qed

lemma length_intercala:
  "\<forall>x \<in> set xs. x \<noteq> [] \<Longrightarrow> length xs \<le> length (intercala sep xs)"
proof (induction sep xs rule: intercala.induct)
  case (2 sep x)
  then show ?case by (cases x) simp_all
next
  case (3 sep x y ys)
  then have "length (y # ys) \<le> length (intercala sep (y # ys))"
    by simp
  moreover from 3 have "x \<noteq> []"
    by simp
  ultimately show ?case by (cases x) simp_all
qed simp

lemma dumps_turno_no_vacio: "dumps nivel (turno_json t) \<noteq> []"
  by (simp add: dumps_turno)

lemma length_intercala_turnos:
  "length ts <
     length (intercala sep (dumps nivel (turno_json t) # map (\<lambda>a. dumps nivel (turno_json a)) ts))"
proof -
  let ?xs = "dumps nivel (turno_json t) # map (\<lambda>a. dumps nivel (turno_json a)) ts"
  have "\<forall>x \<in> set ?xs. x \<noteq> []"
    using dumps_turno_no_vacio by auto
  then have "length ?xs \<le> length (intercala sep ?xs)"
    by (rule length_intercala)
  then show ?thesis by simp
qed

lemma dumps_datos_Nil:
  "dumps 0 (datos ahora []) =
     CHR ''{'' # nueva_linea (Suc 0) @ CHR 0x22 # escapar ''timestamp'' @ CHR 0x22 # CHR '':'' # CHR '' ''
       # CHR 0x22 # escapar ahora @ CHR 0x22 # CHR '','' # nueva_linea (Suc 0)
       @ CHR 0x22 # escapar ''conversacion'' @ CHR 0x22 # CHR '':'' # CHR '' ''
       # CHR ''['' # CHR '']'' # nueva_linea 0 @ ''}''"
  by (simp add: datos_def comillas_def)

lemma dumps_datos_Cons:
  "dumps 0 (datos ahora (t # ts)) =
     CHR ''{'' # nueva_linea (Suc 0) @ CHR 0x22 # escapar ''timestamp'' @ CHR 0x22 # CHR '':'' # CHR '' ''
       # CHR 0x22 # escapar ahora @ CHR 0x22 # CHR '','' # nueva_linea (Suc 0)
       @ CHR 0x22 # escapar ''conversacion'' @ CHR 0x22 # CHR '':'' # CHR '' ''
       # CHR ''['' # nueva_linea (Suc (Suc 0))
       @ intercala (CHR '','' # nueva_linea (Suc (Suc 0)))
           (dumps (Suc (Suc 0)) (turno_json t) # map (\<lambda>a. dumps (Suc (Suc 0)) (turno_json a)) ts)
       @ nueva_linea (Suc 0) @ CHR '']'' # nueva_linea 0 @ ''}''"
  by (simp add: datos_def comillas_def comp_def)

lemma parse_lista_turnos:
  assumes "length ts + 5 \<le> n"
  shows "parse_value (Suc n)
       (CHR ''['' # nueva_linea k
          @ intercala (CHR '','' # nueva_linea k)
              (dumps nivel (turno_json t) # map (\<lambda>a. dumps nivel (turno_json a)) ts)
          @ nueva_linea k' @ CHR '']'' # r)
     = Some (JArray (turno_json t # map turno_json ts), r)"
proof -
  obtain y where y:
    "intercala (CHR '','' # nueva_linea k)
        (dumps nivel (turno_json t) # map (\<lambda>a. dumps nivel (turno_json a)) ts)
       @ nueva_linea k' @ CHR '']'' # r = CHR ''{'' # y"
    by (cases ts) (simp_all add: dumps_turno)
  have "parse_array n (CHR ''{'' # y) = Some (turno_json t # map turno_json ts, r)"
    using parse_turnos [OF assms, of k nivel t k' r] unfolding y .
  then show ?thesis
    by (simp add: y lee_json)
qed

lemma parse_datos:
  assumes "length conv + 8 \<le> n"
  shows "parse_value n (dumps 0 (datos ahora conv) @ r) = Some (datos ahora conv, r)"
proof -
  from assms have n: "n = Suc (Suc (Suc (Suc (n - 4))))"
    by simp
  show ?thesis
  proof (cases conv)
    case Nil
    show ?thesis
      unfolding Nil dumps_datos_Nil
      by (subst n) (simp add: lee_json, simp add: datos_def dict_de_pares_def)
  next
    case (Cons t ts)
    with assms have f: "length ts + 5 \<le> n - 4"
      by simp
    show ?thesis
      unfolding Cons dumps_datos_Cons
      by (subst n)
        (simp add: lee_json parse_lista_turnos [OF f] del: parse_value.simps(2)
           add: parse_value.simps(2) [of _ "CHR ''{'' # _"] parse_value.simps(2) [of _ "CHR 0x22 # _"],
         simp add: datos_def dict_de_pares_def)
  qed
qed

lemma length_dumps_datos: "length conv + 3 \<le> length (dumps 0 (datos ahora conv))"
proof (cases conv)
  case Nil
  then show ?thesis by (simp add: dumps_datos_Nil)
next
  case (Cons t ts)
  show ?thesis
    unfolding Cons dumps_datos_Cons
    using length_intercala_turnos [of ts "CHR '','' # nueva_linea (Suc (Suc 0))" "Suc (Suc 0)" t]
    by simp
qed

lemma json_loads_dumps: "json_loads (dumps 0 (datos ahora conv)) = Some (datos ahora conv)"
proof -
  let ?s = "dumps 0 (datos ahora conv)"
  have b: "saltar_blancos ?s = ?s"
    by (cases conv) (simp_all add: dumps_datos_Nil dumps_datos_Cons lee_json)
  have "length conv + 8 \<le> 2 * length ?s + 2"
    using length_dumps_datos [of conv ahora] by simp
  then have "parse_value (2 * length ?s + 2) (?s @ []) = Some (datos ahora conv, [])"
    by (rule parse_datos)
  then show ?thesis
    by (simp add: json_loads_def b saltar_blancos_Nil)
qed

subsection \<open>What can be written\<close>

lemma concat_iterencode:
  "concat (iterencode nivel v) = dumps nivel v"
  "concat (iterencode_list nivel buf vs)
     = (if vs = [] then [] else buf @ intercala ('','' @ nueva_linea nivel) (map (dumps nivel) vs))"
  "concat (iterencode_dict nivel primero kvs)
     = (if kvs = [] then []
        else (if primero then [] else '','' @ nueva_linea nivel)
             @ intercala ('','' @ nueva_linea nivel)
                 (map (\<lambda>kv. comillas (fst kv) @ '': '' @ dumps nivel (snd kv)) kvs))"
proof (induction nivel v and nivel buf vs and nivel primero kvs
    rule: iterencode_iterencode_list_iterencode_dict.induct)
  case (10 nivel buf v vs)
  then show ?case
    by (cases vs; cases v) simp_all
next
  case (12 nivel primero kv kvs)
  then show ?case
    by (cases kvs) simp_all
qed simp_all

lemma codifica_ascii:
  "\<forall>c \<in> set x. (of_char c :: nat) < 0x80 \<Longrightarrow> codifica_desde p x"
  by (induction x arbitrary: p) auto

lemma codifica_tras_ascii:
  "\<forall>c \<in> set x. (of_char c :: nat) < 0x80 \<Longrightarrow> x \<noteq> [] \<Longrightarrow>
     codifica_desde p (x @ y) = codifica_desde False y"
proof (induction x arbitrary: p)
  case Nil
  then show ?case by simp
next
  case (Cons c x)
  then have c: "(of_char c :: nat) < 0x80"
    by simp
  then have e: "c \<noteq> CHR 0xED"
    by auto
  show ?case
  proof (cases x)
    case Nil
    with c e show ?thesis by simp
  next
    case (Cons d x')
    with Cons.IH [of False] Cons.prems c e show ?thesis by simp
  qed
qed

lemma codifica_ascii_final:
  "(of_char c :: nat) < 0x80 \<Longrightarrow> codifica_desde p (s @ [c]) = codifica_desde p s"
  by (induction s arbitrary: p) auto

lemma digito_hex_ascii_todos: "\<forall>k \<in> set [0..<16]. (of_char (digito_hex k) :: nat) < 0x80"
  by code_simp

lemma digito_hex_ascii: "k < 16 \<Longrightarrow> (of_char (digito_hex k) :: nat) < 0x80"
  using digito_hex_ascii_todos by simp

lemma escapar_caracter_ascii:
  assumes "escapar_caracter c \<noteq> [c]"
  shows "(of_char c :: nat) < 0x80 \<and> escapar_caracter c \<noteq> []
       \<and> (\<forall>d \<in> set (escapar_caracter c). (of_char d :: nat) < 0x80)"
proof -
  have h: "(of_char c :: nat) div 16 < 16" "(of_char c :: nat) mod 16 < 16"
    using of_char_mod_256 [of c, where ?'a = nat]
    by (simp_all add: less_mult_imp_div_less)
  show ?thesis
    using assms digito_hex_ascii [OF h(1)] digito_hex_ascii [OF h(2)]
    by (auto simp: escapar_caracter_def split: if_splits)
qed

lemma codifica_escapar:
  "codifica_desde p (escapar s @ t) = codifica_desde p (s @ t)"
proof (induction s arbitrary: p)
  case Nil
  then show ?case by (simp add: escapar_def)
next
  case (Cons c s)
  have e: "escapar (c # s) @ t = escapar_caracter c @ escapar s @ t"
    by (simp add: escapar_def)
  show ?case
  proof (cases "escapar_caracter c = [c]")
    case True
    then show ?thesis
      unfolding e using Cons.IH by simp
  next
    case False
    note a = escapar_caracter_ascii [OF False]
    from a have "codifica_desde p (escapar_caracter c @ escapar s @ t)
                   = codifica_desde False (escapar s @ t)"
      by (intro codifica_tras_ascii) simp_all
    moreover from a have "c \<noteq> CHR 0xED"
      by auto
    with a have "codifica_desde p (c # s @ t) = codifica_desde False (s @ t)"
      by simp
    ultimately show ?thesis
      unfolding e using Cons.IH [of False] by simp
  qed
qed

lemma codificable_comillas: "codificable (comillas s) = codificable s"
proof -
  have "codifica_desde False (escapar s @ [CHR 0x22]) = codifica_desde False (s @ [CHR 0x22])"
    by (rule codifica_escapar)
  also have "\<dots> = codifica_desde False s"
    by (rule codifica_ascii_final) simp
  finally show ?thesis
    by (simp add: codificable_def comillas_def)
qed

lemma codificable_nueva_linea: "codificable (nueva_linea n)"
  unfolding codificable_def by (rule codifica_ascii) (auto simp: nueva_linea_def)

lemma codificable_coma_linea: "codificable (CHR '','' # nueva_linea n)"
  unfolding codificable_def by (rule codifica_ascii) (auto simp: nueva_linea_def)

lemma codificable_corchete_linea: "codificable (CHR ''['' # nueva_linea n)"
  unfolding codificable_def by (rule codifica_ascii) (auto simp: nueva_linea_def)

lemma codificable_literal:
  "codificable ''{''" "codificable ''}''" "codificable '']''" "codificable ''[]''"
  "codificable '': ''" "codificable ''rol''" "codificable ''texto''"
  "codificable ''timestamp''" "codificable ''conversacion''"
  by (simp_all add: codificable_def)

lemma iterencode_turno:
  "list_all codificable (iterencode nivel (turno_json t))
     = (codificable (rol t) \<and> codificable (texto t))"
  by (simp add: turno_json_def codificable_comillas codificable_literal codificable_nueva_linea
      codificable_coma_linea)

lemma iterencode_turnos:
  "codificable buf \<Longrightarrow>
     list_all codificable (iterencode_list nivel buf (map turno_json c))
       = list_all (\<lambda>t. codificable (rol t) \<and> codificable (texto t)) c"
proof (induction c arbitrary: buf)
  case Nil
  then show ?case by simp
next
  case (Cons t c)
  have "list_all codificable (iterencode_list nivel (CHR '','' # nueva_linea nivel) (map turno_json c))
       = list_all (\<lambda>t. codificable (rol t) \<and> codificable (texto t)) c"
    by (rule Cons.IH) (rule codificable_coma_linea)
  moreover have "iterencode_list nivel buf (map turno_json (t # c))
      = buf # iterencode nivel (turno_json t)
          @ iterencode_list nivel (CHR '','' # nueva_linea nivel) (map turno_json c)"
    by (simp add: turno_json_def)
  ultimately show ?case
    using Cons.prems iterencode_turno [of nivel t] by simp
qed

lemma iterencode_datos:
  "list_all codificable (iterencode 0 (datos ahora c)) = escribible ahora c"
proof (cases c)
  case Nil
  then show ?thesis
    by (simp add: datos_def escribible_def codificable_comillas codificable_literal
        codificable_nueva_linea codificable_coma_linea)
next
  case (Cons t ts)
  have "list_all codificable
          (iterencode_list (Suc (Suc 0)) (CHR ''['' # nueva_linea (Suc (Suc 0))) (map turno_json (t # ts)))
        = list_all (\<lambda>t. codificable (rol t) \<and> codificable (texto t)) (t # ts)"
    by (rule iterencode_turnos) (rule codificable_corchete_linea)
  then show ?thesis
    unfolding Cons
    by (simp add: datos_def escribible_def codificable_comillas codificable_literal
        codificable_nueva_linea codificable_coma_linea)
qed

lemma guardar_bien:
  assumes "escribible ahora c"
  shows "guardar_conversacion self ahora c archivos
           = (archivos(archivo_salida self \<mapsto> dumps 0 (datos ahora c)), Inr (archivo_salida self))"
  using assms
  by (simp add: guardar_conversacion_def Let_def iterencode_datos concat_iterencode(1))

lemma guardar_mal:
  assumes "\<not> escribible ahora c"
  shows "guardar_conversacion self ahora c archivos
           = (archivos(archivo_salida self \<mapsto>
                concat (takeWhile codificable (iterencode 0 (datos ahora c)))),
              Inl UnicodeEncodeError)"
  using assms
  by (simp add: guardar_conversacion_def Let_def iterencode_datos)

lemma archivo_guardado:
  "fst (guardar_conversacion self b c (fst (guardar_conversacion self a c archivos)))
     = fst (guardar_conversacion self b c archivos)"
  by (simp add: guardar_conversacion_def Let_def)

lemma cargar_archivo_salida:
  "cargar_conversacion self (Some (archivo_salida self)) fs = cargar_conversacion self None fs"
  by (simp add: cargar_conversacion_def)

lemma cargar_guardar:
  assumes "escribible ahora conv"
  shows "cargar_conversacion lg None (fst (guardar_conversacion lg ahora conv archivos))
     = Inr (JArray (map turno_json conv))"
proof -
  have "cargar_conversacion lg None (archivos(archivo_salida lg \<mapsto> dumps 0 (datos ahora conv)))
     = Inr (JArray (map turno_json conv))"
    by (simp add: cargar_conversacion_def json_loads_dumps) (simp add: datos_def)
  then show ?thesis
    by (simp add: guardar_bien [OF assms])
qed

text \<open>
  C10, as the code has it. When the clock text and every role and text of the
  conversation can be encoded as UTF-8, \<open>guardar_conversacion\<close> returns the path of
  the logger's file, and \<open>cargar_conversacion\<close>, on the logger's own file or on that
  path, gives the list of the dictionaries of the conversation, whatever the files held
  before.
\<close>

theorem guardar_y_cargar:
  assumes "escribible ahora c"
  shows "snd (guardar_conversacion self ahora c archivos) = Inr (archivo_salida self)
   \<and> cargar_conversacion self None (fst (guardar_conversacion self ahora c archivos))
     = Inr (JArray (map turno_json c))
   \<and> cargar_conversacion self (Some (archivo_salida self))
         (fst (guardar_conversacion self ahora c archivos))
     = Inr (JArray (map turno_json c))"
proof -
  have a: "cargar_conversacion self None (fst (guardar_conversacion self ahora c archivos))
     = Inr (JArray (map turno_json c))"
    using assms by (rule cargar_guardar)
  have b: "snd (guardar_conversacion self ahora c archivos) = Inr (archivo_salida self)"
    by (simp add: guardar_bien [OF assms])
  show ?thesis
    unfolding cargar_archivo_salida using a b by simp
qed

theorem guardar_y_cargar_witness:
  "snd (guardar_conversacion logger_ejemplo ''2024-01-01T10:05:00.000001''
          [\<lparr>rol = entrevistador, texto = ''Hola''\<rparr>,
           \<lparr>rol = candidato, texto = ''Soy Ana, ingenier'' @ i_aguda @ ''a''\<rparr>] Map.empty)
     = Inr ''transcripts/entrevista_20240101_100000.json''
   \<and> cargar_conversacion logger_ejemplo None
        (fst (guardar_conversacion logger_ejemplo ''2024-01-01T10:05:00.000001''
          [\<lparr>rol = entrevistador, texto = ''Hola''\<rparr>,
           \<lparr>rol = candidato, texto = ''Soy Ana, ingenier'' @ i_aguda @ ''a''\<rparr>] Map.empty))
     = Inr (JArray [JObject [(''rol'', JString entrevistador), (''texto'', JString ''Hola'')],
                    JObject [(''rol'', JString candidato),
                             (''texto'', JString (''Soy Ana, ingenier'' @ i_aguda @ ''a''))]])"
proof -
  have e: "escribible ''2024-01-01T10:05:00.000001''
          [\<lparr>rol = entrevistador, texto = ''Hola''\<rparr>,
           \<lparr>rol = candidato, texto = ''Soy Ana, ingenier'' @ i_aguda @ ''a''\<rparr>]"
    by (simp add: escribible_def codificable_def entrevistador_def candidato_def)
  have p: "archivo_salida logger_ejemplo = ''transcripts/entrevista_20240101_100000.json''"
    by (simp add: logger_ejemplo_def EntrevistaLogger_def path_join_def)
  show ?thesis
    using guardar_y_cargar [OF e, of logger_ejemplo Map.empty]
    by (simp add: p turno_json_def)
qed

text \<open>
  C10 as stated fails: a text with a lone surrogate (here U+DC80, as a decoded answer
  of the service can hold it) cannot be encoded. The call raises
  \<open>UnicodeEncodeError\<close>, the file keeps the pieces written before the text, which are
  no JSON document, and loading it gives the empty list.
\<close>

theorem guardar_sustituto:
  "snd (guardar_conversacion logger_ejemplo ''2024-01-01T10:05:00.000001''
          [\<lparr>rol = candidato, texto = ''Hola '' @ [CHR 0xED, CHR 0xB2, CHR 0x80]\<rparr>] Map.empty)
     = Inl UnicodeEncodeError
   \<and> fst (guardar_conversacion logger_ejemplo ''2024-01-01T10:05:00.000001''
          [\<lparr>rol = candidato, texto = ''Hola '' @ [CHR 0xED, CHR 0xB2, CHR 0x80]\<rparr>] Map.empty)
        ''transcripts/entrevista_20240101_100000.json''
     = Some (concat [''{'', nueva_linea 1, comillas ''timestamp'', '': '',
                     comillas ''2024-01-01T10:05:00.000001'', '','' @ nueva_linea 1,
                     comillas ''conversacion'', '': '', ''['' @ nueva_linea 2,
                     ''{'', nueva_linea 3, comillas ''rol'', '': '', comillas ''candidato'',
                     '','' @ nueva_linea 3, comillas ''texto'', '': ''])
   \<and> cargar_conversacion logger_ejemplo None
        (fst (guardar_conversacion logger_ejemplo ''2024-01-01T10:05:00.000001''
          [\<lparr>rol = candidato, texto = ''Hola '' @ [CHR 0xED, CHR 0xB2, CHR 0x80]\<rparr>] Map.empty))
     = Inr (JArray [])
   \<and> cargar_conversacion logger_ejemplo None
        (fst (guardar_conversacion logger_ejemplo ''2024-01-01T10:05:00.000001''
          [\<lparr>rol = candidato, texto = ''Hola '' @ [CHR 0xED, CHR 0xB2, CHR 0x80]\<rparr>] Map.empty))
     \<noteq> Inr (JArray (map turno_json
          [\<lparr>rol = candidato, texto = ''Hola '' @ [CHR 0xED, CHR 0xB2, CHR 0x80]\<rparr>]))"
  by code_simp

subsection \<open>Saving twice\<close>

text \<open>
  C1, as the code has it. A second call of \<open>guardar_conversacion\<close> with the same
  conversation leaves the files as that call alone would: the file is replaced, not
  extended. When both calls read the same clock value the second call changes nothing.
  When the conversation and the clock texts can be encoded as UTF-8, the file holds
  after each call the document of that call; the two documents read back as the same
  conversation under the two clock values, so they differ in the value of the
  \<open>timestamp\<close> field and in nothing else, they are the same text exactly when the
  clock values are the same, and loading the file gives the conversation.
\<close>

theorem guardar_sobrescribe:
  "fst (guardar_conversacion self t2 c (fst (guardar_conversacion self t1 c archivos)))
     = fst (guardar_conversacion self t2 c archivos)
   \<and> fst (guardar_conversacion self t1 c (fst (guardar_conversacion self t1 c archivos)))
     = fst (guardar_conversacion self t1 c archivos)
   \<and> (escribible t1 c \<and> escribible t2 c \<longrightarrow>
        fst (guardar_conversacion self t1 c archivos) (archivo_salida self)
          = Some (dumps 0 (datos t1 c))
      \<and> fst (guardar_conversacion self t2 c (fst (guardar_conversacion self t1 c archivos)))
            (archivo_salida self)
          = Some (dumps 0 (datos t2 c))
      \<and> json_loads (dumps 0 (datos t1 c))
          = Some (JObject [(''timestamp'', JString t1),
                           (''conversacion'', JArray (map turno_json c))])
      \<and> json_loads (dumps 0 (datos t2 c))
          = Some (JObject [(''timestamp'', JString t2),
                           (''conversacion'', JArray (map turno_json c))])
      \<and> (dumps 0 (datos t1 c) = dumps 0 (datos t2 c)) = (t1 = t2)
      \<and> cargar_conversacion self None
            (fst (guardar_conversacion self t2 c (fst (guardar_conversacion self t1 c archivos))))
          = Inr (JArray (map turno_json c)))"
proof -
  have d: "dumps 0 (datos a c) = dumps 0 (datos b c) \<Longrightarrow> a = b" for a b
  proof -
    assume h: "dumps 0 (datos a c) = dumps 0 (datos b c)"
    have "Some (datos a c) = json_loads (dumps 0 (datos a c))"
      by (simp only: json_loads_dumps)
    also have "\<dots> = json_loads (dumps 0 (datos b c))"
      by (simp only: h)
    also have "\<dots> = Some (datos b c)"
      by (simp only: json_loads_dumps)
    finally show "a = b"
      by (simp add: datos_def)
  qed
  have i: "(dumps 0 (datos t1 c) = dumps 0 (datos t2 c)) = (t1 = t2)"
    using d by blast
  have l: "json_loads (dumps 0 (datos a c))
          = Some (JObject [(''timestamp'', JString a),
                           (''conversacion'', JArray (map turno_json c))])" for a
    unfolding json_loads_dumps by (simp add: datos_def)
  have g: "escribible a c \<Longrightarrow>
      fst (guardar_conversacion self a c fs) (archivo_salida self) = Some (dumps 0 (datos a c))"
    for a fs
    by (simp add: guardar_bien)
  show ?thesis
    unfolding archivo_guardado
    using i l g cargar_guardar by simp
qed

theorem guardar_sobrescribe_witness:
  "fst (guardar_conversacion logger_ejemplo ''2024-01-01T10:05:00.000002''
          [\<lparr>rol = entrevistador, texto = ''Hola''\<rparr>]
          (fst (guardar_conversacion logger_ejemplo ''2024-01-01T10:05:00.000001''
             [\<lparr>rol = entrevistador, texto = ''Hola''\<rparr>] Map.empty)))
        (archivo_salida logger_ejemplo)
     = Some (dumps 0 (datos ''2024-01-01T10:05:00.000002'' [\<lparr>rol = entrevistador, texto = ''Hola''\<rparr>]))
   \<and> dumps 0 (datos ''2024-01-01T10:05:00.000001'' [\<lparr>rol = entrevistador, texto = ''Hola''\<rparr>])
     \<noteq> dumps 0 (datos ''2024-01-01T10:05:00.000002'' [\<lparr>rol = entrevistador, texto = ''Hola''\<rparr>])
   \<and> cargar_conversacion logger_ejemplo None
        (fst (guardar_conversacion logger_ejemplo ''2024-01-01T10:05:00.000002''
          [\<lparr>rol = entrevistador, texto = ''Hola''\<rparr>]
          (fst (guardar_conversacion logger_ejemplo ''2024-01-01T10:05:00.000001''
             [\<lparr>rol = entrevistador, texto = ''Hola''\<rparr>] Map.empty))))
     = Inr (JArray [JObject [(''rol'', JString entrevistador), (''texto'', JString ''Hola'')]])"
proof -
  have e: "escribible ''2024-01-01T10:05:00.000001'' [\<lparr>rol = entrevistador, texto = ''Hola''\<rparr>]"
    "escribible ''2024-01-01T10:05:00.000002'' [\<lparr>rol = entrevistador, texto = ''Hola''\<rparr>]"
    by (simp_all add: escribible_def codificable_def entrevistador_def)
  have n: "''2024-01-01T10:05:00.000001'' \<noteq> ''2024-01-01T10:05:00.000002''"
    by simp
  note h = guardar_sobrescribe [of logger_ejemplo "''2024-01-01T10:05:00.000002''"
        "[\<lparr>rol = entrevistador, texto = ''Hola''\<rparr>]" "''2024-01-01T10:05:00.000001''" Map.empty,
        THEN conjunct2, THEN conjunct2, rule_format, OF conjI [OF e]]
  show ?thesis
    using h n by (simp add: turno_json_def)
qed

text \<open>
  C1 as stated fails: each call writes the clock value it reads into the document, so
  two calls that read different values leave files that differ.
\<close>

theorem guardar_cambia_timestamp:
  "fst (guardar_conversacion (EntrevistaLogger ''transcripts'' ''20240101_100000'')
          ''2024-01-01T10:05:00.000002'' [\<lparr>rol = entrevistador, texto = ''Hola''\<rparr>]
          (fst (guardar_conversacion (EntrevistaLogger ''transcripts'' ''20240101_100000'')
             ''2024-01-01T10:05:00.000001'' [\<lparr>rol = entrevistador, texto = ''Hola''\<rparr>] Map.empty)))
       ''transcripts/entrevista_20240101_100000.json''
   \<noteq> fst (guardar_conversacion (EntrevistaLogger ''transcripts'' ''20240101_100000'')
          ''2024-01-01T10:05:00.000001'' [\<lparr>rol = entrevistador, texto = ''Hola''\<rparr>] Map.empty)
       ''transcripts/entrevista_20240101_100000.json''"
  by code_simp

subsection \<open>The session\<close>

lemma ejecutar_Nil: "ejecutar cfg s [] = s"
  by (simp add: ejecutar_def)

lemma ejecutar_Cons: "ejecutar cfg s (ev # evs) = ejecutar cfg (paso cfg s ev) evs"
  by (simp add: ejecutar_def)

lemma paso_captura_vacia:
  assumes "punto s = AwaitingCandidateInput" and "strip r = []"
  shows "paso cfg (paso cfg s Enter) (Transcrito r) = s\<lparr>traza := traza s @ [Capturo r]\<rparr>"
  using assms by (simp add: paso_def)

text \<open>
  C3. From the point where the session waits for the candidate, any number of
  captures in a row that give an empty text or white space only leave the
  conversation and the files as they were (no turn is appended, nothing is saved) and
  the session waiting for the candidate again, not terminated: only the captures
  themselves are added to the record of the calls.
\<close>

theorem capturas_vacias:
  assumes "punto s = AwaitingCandidateInput" and "\<forall>r \<in> set rs. strip r = []"
  shows "ejecutar cfg s (capturas rs) = s\<lparr>traza := traza s @ map Capturo rs\<rparr>
       \<and> conversacion (ejecutar cfg s (capturas rs)) = conversacion s
       \<and> disco (ejecutar cfg s (capturas rs)) = disco s
       \<and> punto (ejecutar cfg s (capturas rs)) = AwaitingCandidateInput
       \<and> traza (ejecutar cfg s (capturas rs)) = traza s @ map Capturo rs"
proof -
  have "ejecutar cfg s (capturas rs) = s\<lparr>traza := traza s @ map Capturo rs\<rparr>"
    using assms
  proof (induction rs arbitrary: s)
    case Nil
    then show ?case by (simp add: capturas_def ejecutar_Nil)
  next
    case (Cons r rs)
    let ?s = "s\<lparr>traza := traza s @ [Capturo r]\<rparr>"
    have "ejecutar cfg s (capturas (r # rs)) = ejecutar cfg ?s (capturas rs)"
      using Cons.prems by (simp add: capturas_def ejecutar_Cons paso_captura_vacia)
    also have "\<dots> = ?s\<lparr>traza := traza ?s @ map Capturo rs\<rparr>"
      using Cons.prems by (intro Cons.IH) simp_all
    finally show ?case by simp
  qed
  then show ?thesis using assms(1) by simp
qed

theorem capturas_vacias_witness:
  "ejecutar cfg_ejemplo (inicio logger_ejemplo Map.empty) (capturas ['''', ''  ''])
     = (inicio logger_ejemplo Map.empty)\<lparr>traza := [Capturo '''', Capturo ''  '']\<rparr>"
proof -
  have "strip '''' = []" and "strip ''  '' = []"
    by (simp_all add: evalua_strip)
  then have "\<forall>r \<in> set ['''', ''  '']. strip r = []"
    by simp
  moreover have "punto (inicio logger_ejemplo Map.empty) = AwaitingCandidateInput"
    by (simp add: inicio_def)
  ultimately show ?thesis
    using capturas_vacias [of "inicio logger_ejemplo Map.empty" "['''', ''  '']" cfg_ejemplo]
    by (simp add: inicio_def)
qed

lemma persistir_bien:
  assumes "escribible ahora (conversacion s)"
  shows "persistir s ahora siguiente =
           s\<lparr>disco := (disco s)(archivo_salida (logger s) \<mapsto> dumps 0 (datos ahora (conversacion s))),
             traza := traza s @ [Persistio (conversacion s)], punto := siguiente\<rparr>"
  by (simp add: persistir_def guardar_bien [OF assms])

lemma persistir_mal:
  assumes "\<not> escribible ahora (conversacion s)"
  shows "persistir s ahora siguiente =
           s\<lparr>disco := (disco s)(archivo_salida (logger s) \<mapsto>
                  concat (takeWhile codificable (iterencode 0 (datos ahora (conversacion s))))),
             punto := Crashed\<rparr>"
  by (simp add: persistir_def guardar_mal [OF assms])

lemma persistir_campos:
  "conversacion (persistir s ahora siguiente) = conversacion s"
  "logger (persistir s ahora siguiente) = logger s"
  "punto (persistir s ahora siguiente)
     = (if escribible ahora (conversacion s) then siguiente else Crashed)"
  "traza (persistir s ahora siguiente)
     = (if escribible ahora (conversacion s) then traza s @ [Persistio (conversacion s)]
        else traza s)"
  by (cases "escribible ahora (conversacion s)"; simp add: persistir_bien persistir_mal)+

lemma disco_persistir:
  "escribible ahora (conversacion s) \<Longrightarrow>
     disco (persistir s ahora siguiente) (archivo_salida (logger s))
       = Some (dumps 0 (datos ahora (conversacion s)))"
  by (simp add: persistir_bien)

lemma cargar_persistir:
  assumes "escribible ahora (conversacion s)"
  shows "cargar_conversacion (logger s) None (disco (persistir s ahora siguiente))
     = Inr (JArray (map turno_json (conversacion s)))"
  using cargar_guardar [OF assms, of "logger s" "disco s"]
  by (simp add: persistir_bien [OF assms] guardar_bien [OF assms])

lemma agregar_campos:
  "conversacion (agregar s quien dicho) = conversacion s @ [\<lparr>rol = quien, texto = dicho\<rparr>]"
  "logger (agregar s quien dicho) = logger s"
  "punto (agregar s quien dicho) = punto s"
  "traza (agregar s quien dicho) = traza s"
  "disco (agregar s quien dicho) = disco s"
  by (simp_all add: agregar_def)

lemma paso_final: "punto s = Terminated \<or> punto s = Crashed \<Longrightarrow> paso cfg s ev = s"
  by (auto simp: paso_def)

lemma ejecutar_final: "punto s = Terminated \<or> punto s = Crashed \<Longrightarrow> ejecutar cfg s evs = s"
  by (induction evs) (simp_all add: ejecutar_Nil ejecutar_Cons paso_final)


lemma sesion_ejemplo:
  "punto (ejecutar cfg_ejemplo (inicio logger_ejemplo Map.empty)
       [Enter, Transcrito ''Soy Ana'', Mostrado, Escrito ''2024-01-01T10:05:00.000001''])
     = GeneratingNextQuestion"
  "conversacion (ejecutar cfg_ejemplo (inicio logger_ejemplo Map.empty)
       [Enter, Transcrito ''Soy Ana'', Mostrado, Escrito ''2024-01-01T10:05:00.000001''])
     = [\<lparr>rol = entrevistador, texto = pregunta_inicial\<rparr>, \<lparr>rol = candidato, texto = ''Soy Ana''\<rparr>]"
  "traza (ejecutar cfg_ejemplo (inicio logger_ejemplo Map.empty)
       [Enter, Transcrito ''Soy Ana'', Mostrado, Escrito ''2024-01-01T10:05:00.000001''])
     = [Capturo ''Soy Ana'',
        Persistio [\<lparr>rol = entrevistador, texto = pregunta_inicial\<rparr>,
                   \<lparr>rol = candidato, texto = ''Soy Ana''\<rparr>]]"
  by code_simp+

text \<open>
  C4, as the code has it. A captured text with a character that is not white space is
  appended as one turn of the candidate, and then the conversation is saved. When the
  conversation with the new turn can be encoded as UTF-8, the whole of it is written
  to the file, from which it can be loaded back, and only then is the question
  generated: the record of the calls has the capture, the saving of the conversation
  with the new turn, and the generation, in this order. When it cannot, the save
  raises and the program stops: nothing is generated, whatever happens next.
\<close>

theorem respuesta_agregada:
  assumes "punto s = Capturing" and "strip r \<noteq> []"
  shows "conversacion (ejecutar cfg s [Transcrito r, Mostrado])
           = conversacion s @ [\<lparr>rol = candidato, texto = r\<rparr>]
       \<and> punto (ejecutar cfg s [Transcrito r, Mostrado]) = PersistingAnswer
       \<and> traza (ejecutar cfg s [Transcrito r, Mostrado]) = traza s @ [Capturo r]
       \<and> conversacion (ejecutar cfg s [Transcrito r, Mostrado, Escrito ahora])
           = conversacion s @ [\<lparr>rol = candidato, texto = r\<rparr>]
       \<and> (escribible ahora (conversacion s @ [\<lparr>rol = candidato, texto = r\<rparr>]) \<longrightarrow>
            punto (ejecutar cfg s [Transcrito r, Mostrado, Escrito ahora]) = GeneratingNextQuestion
          \<and> disco (ejecutar cfg s [Transcrito r, Mostrado, Escrito ahora]) (archivo_salida (logger s))
              = Some (dumps 0 (datos ahora (conversacion s @ [\<lparr>rol = candidato, texto = r\<rparr>])))
          \<and> cargar_conversacion (logger s) None
                (disco (ejecutar cfg s [Transcrito r, Mostrado, Escrito ahora]))
              = Inr (JArray (map turno_json (conversacion s @ [\<lparr>rol = candidato, texto = r\<rparr>])))
          \<and> traza (ejecutar cfg s [Transcrito r, Mostrado, Escrito ahora, Respondido post])
              = traza s @ [Capturo r, Persistio (conversacion s @ [\<lparr>rol = candidato, texto = r\<rparr>]),
                   Genero (generar_pregunta (OPENROUTER_API_KEY cfg) post
                     (conversacion s @ [\<lparr>rol = candidato, texto = r\<rparr>]) (prompt cfg)
                     (Some (modelo_llm cfg)))])
       \<and> (\<not> escribible ahora (conversacion s @ [\<lparr>rol = candidato, texto = r\<rparr>]) \<longrightarrow>
            punto (ejecutar cfg s [Transcrito r, Mostrado, Escrito ahora]) = Crashed
          \<and> (\<forall>evs. traza (ejecutar cfg s (Transcrito r # Mostrado # Escrito ahora # evs))
                     = traza s @ [Capturo r]))"
proof -
  let ?c = "conversacion s @ [\<lparr>rol = candidato, texto = r\<rparr>]"
  let ?s1 = "(agregar (s\<lparr>punto := ShowingAnswer r, traza := traza s @ [Capturo r]\<rparr>) candidato r)
               \<lparr>punto := PersistingAnswer\<rparr>"
  let ?s2 = "persistir ?s1 ahora GeneratingNextQuestion"
  have e1: "ejecutar cfg s [Transcrito r, Mostrado] = ?s1"
    using assms by (simp add: ejecutar_Cons ejecutar_Nil paso_def)
  have e2: "ejecutar cfg s [Transcrito r, Mostrado, Escrito ahora] = ?s2"
    using assms by (simp add: ejecutar_Cons ejecutar_Nil paso_def agregar_campos)
  have e3: "ejecutar cfg s (Transcrito r # Mostrado # Escrito ahora # evs) = ejecutar cfg ?s2 evs"
    for evs
    using e2 by (simp add: ejecutar_Cons ejecutar_Nil)
  have c1: "conversacion ?s1 = ?c"
    and l1: "logger ?s1 = logger s"
    and t1: "traza ?s1 = traza s @ [Capturo r]"
    by (simp_all add: agregar_campos)
  have bien: "punto ?s2 = GeneratingNextQuestion
          \<and> disco ?s2 (archivo_salida (logger s)) = Some (dumps 0 (datos ahora ?c))
          \<and> cargar_conversacion (logger s) None (disco ?s2) = Inr (JArray (map turno_json ?c))
          \<and> traza (ejecutar cfg s [Transcrito r, Mostrado, Escrito ahora, Respondido post])
              = traza s @ [Capturo r, Persistio ?c,
                   Genero (generar_pregunta (OPENROUTER_API_KEY cfg) post ?c (prompt cfg)
                     (Some (modelo_llm cfg)))]"
    if w: "escribible ahora ?c"
  proof -
    from w have w1: "escribible ahora (conversacion ?s1)"
      by (simp only: c1)
    have p: "punto ?s2 = GeneratingNextQuestion"
      using w1 by (simp only: persistir_campos if_True)
    have d: "disco ?s2 (archivo_salida (logger s)) = Some (dumps 0 (datos ahora ?c))"
      using disco_persistir [OF w1, of GeneratingNextQuestion] by (simp only: c1 l1)
    have g: "cargar_conversacion (logger s) None (disco ?s2) = Inr (JArray (map turno_json ?c))"
      using cargar_persistir [OF w1, of GeneratingNextQuestion] by (simp only: c1 l1)
    have c2: "conversacion ?s2 = ?c"
      by (simp only: persistir_campos c1)
    have t2: "traza ?s2 = traza s @ [Capturo r, Persistio ?c]"
      using w1 by (simp only: persistir_campos if_True c1 t1) simp
    have t: "traza (ejecutar cfg s [Transcrito r, Mostrado, Escrito ahora, Respondido post])
              = traza s @ [Capturo r, Persistio ?c,
                   Genero (generar_pregunta (OPENROUTER_API_KEY cfg) post ?c (prompt cfg)
                     (Some (modelo_llm cfg)))]"
      unfolding e3 by (simp add: ejecutar_Cons ejecutar_Nil paso_def p Let_def c2 t2)
    from p d g t show ?thesis
      by blast
  qed
  have mal: "punto ?s2 = Crashed
          \<and> (\<forall>evs. traza (ejecutar cfg s (Transcrito r # Mostrado # Escrito ahora # evs))
                     = traza s @ [Capturo r])"
    if w: "\<not> escribible ahora ?c"
  proof -
    from w have w1: "\<not> escribible ahora (conversacion ?s1)"
      by (simp only: c1 not_False_eq_True)
    have p: "punto ?s2 = Crashed"
      using w1 by (simp only: persistir_campos if_False)
    have t2: "traza ?s2 = traza s @ [Capturo r]"
      using w1 by (simp only: persistir_campos if_False t1)
    from p have "ejecutar cfg ?s2 evs = ?s2" for evs
      by (intro ejecutar_final) simp
    with p t2 show ?thesis
      unfolding e3 by simp
  qed
  have c2: "conversacion ?s2 = ?c"
    by (simp only: persistir_campos c1)
  show ?thesis
    unfolding e2 e1 using bien mal c1 c2 t1 by (simp add: agregar_campos)
qed

theorem respuesta_agregada_witness:
  "conversacion (ejecutar cfg_ejemplo (inicio logger_ejemplo Map.empty)
       [Enter, Transcrito ''Soy Ana'', Mostrado, Escrito ''2024-01-01T10:05:00.000001''])
     = [\<lparr>rol = entrevistador, texto = pregunta_inicial\<rparr>, \<lparr>rol = candidato, texto = ''Soy Ana''\<rparr>]
   \<and> punto (ejecutar cfg_ejemplo (inicio logger_ejemplo Map.empty)
       [Enter, Transcrito ''Soy Ana'', Mostrado, Escrito ''2024-01-01T10:05:00.000001''])
     = GeneratingNextQuestion"
proof -
  let ?s = "paso cfg_ejemplo (inicio logger_ejemplo Map.empty) Enter"
  have p: "punto ?s = Capturing" and c: "conversacion ?s = [\<lparr>rol = entrevistador, texto = pregunta_inicial\<rparr>]"
    by (simp_all add: paso_def inicio_def)
  have r: "strip ''Soy Ana'' \<noteq> []"
    by (simp add: evalua_strip)
  have w: "escribible ''2024-01-01T10:05:00.000001''
             [\<lparr>rol = entrevistador, texto = pregunta_inicial\<rparr>, \<lparr>rol = candidato, texto = ''Soy Ana''\<rparr>]"
    by code_simp
  show ?thesis
    using respuesta_agregada [OF p r, of cfg_ejemplo "''2024-01-01T10:05:00.000001''"] w
    by (simp add: ejecutar_Cons c)
qed

text \<open>
  C4 as stated fails. A captured text of one space is not empty, and no turn is
  appended and nothing is saved (line 88 tests the text after \<open>strip\<close>). And when
  the service has answered with a question that holds a lone surrogate, the next
  answer of the candidate is appended, but the save raises \<open>UnicodeEncodeError\<close>: the
  program stops, the file keeps a part of the document that loads as the empty list,
  and no question is generated after this answer.
\<close>

theorem respuesta_en_blanco:
  "'' '' \<noteq> []
   \<and> conversacion (ejecutar cfg_ejemplo (inicio logger_ejemplo Map.empty) [Enter, Transcrito '' ''])
     = [\<lparr>rol = entrevistador, texto = pregunta_inicial\<rparr>]
   \<and> disco (ejecutar cfg_ejemplo (inicio logger_ejemplo Map.empty) [Enter, Transcrito '' ''])
     = Map.empty
   \<and> traza (ejecutar cfg_ejemplo (inicio logger_ejemplo Map.empty) [Enter, Transcrito '' ''])
     = [Capturo '' '']
   \<and> punto (ejecutar cfg_ejemplo (inicio logger_ejemplo Map.empty) [Enter, Transcrito '' ''])
     = AwaitingCandidateInput
   \<and> strip ''Cinco'' \<noteq> []
   \<and> punto (ejecutar cfg_ejemplo (inicio logger_ejemplo Map.empty)
        [Enter, Transcrito ''Soy Ana'', Mostrado, Escrito ''2024-01-01T10:05:00.000001'',
         Respondido (\<lambda>pet. Respuesta True (Some pregunta_con_sustituto)), Mostrado,
         Enter])
     = Capturing
   \<and> conversacion (ejecutar cfg_ejemplo (inicio logger_ejemplo Map.empty)
        [Enter, Transcrito ''Soy Ana'', Mostrado, Escrito ''2024-01-01T10:05:00.000001'',
         Respondido (\<lambda>pet. Respuesta True (Some pregunta_con_sustituto)), Mostrado,
         Enter, Transcrito ''Cinco'', Mostrado, Escrito ''2024-01-01T10:05:30.000001''])
     = [\<lparr>rol = entrevistador, texto = pregunta_inicial\<rparr>,
        \<lparr>rol = candidato, texto = ''Soy Ana''\<rparr>,
        \<lparr>rol = entrevistador, texto = ''Sigamos '' @ sustituto\<rparr>,
        \<lparr>rol = candidato, texto = ''Cinco''\<rparr>]
   \<and> punto (ejecutar cfg_ejemplo (inicio logger_ejemplo Map.empty)
        [Enter, Transcrito ''Soy Ana'', Mostrado, Escrito ''2024-01-01T10:05:00.000001'',
         Respondido (\<lambda>pet. Respuesta True (Some pregunta_con_sustituto)), Mostrado,
         Enter, Transcrito ''Cinco'', Mostrado, Escrito ''2024-01-01T10:05:30.000001''])
     = Crashed
   \<and> cargar_conversacion logger_ejemplo None
        (disco (ejecutar cfg_ejemplo (inicio logger_ejemplo Map.empty)
          [Enter, Transcrito ''Soy Ana'', Mostrado, Escrito ''2024-01-01T10:05:00.000001'',
           Respondido (\<lambda>pet. Respuesta True (Some pregunta_con_sustituto)), Mostrado,
           Enter, Transcrito ''Cinco'', Mostrado, Escrito ''2024-01-01T10:05:30.000001'']))
     = Inr (JArray [])
   \<and> traza (ejecutar cfg_ejemplo (inicio logger_ejemplo Map.empty)
        [Enter, Transcrito ''Soy Ana'', Mostrado, Escrito ''2024-01-01T10:05:00.000001'',
         Respondido (\<lambda>pet. Respuesta True (Some pregunta_con_sustituto)), Mostrado,
         Enter, Transcrito ''Cinco'', Mostrado, Escrito ''2024-01-01T10:05:30.000001'',
         Respondido (\<lambda>pet. Respuesta True (Some despedida))])
     = [Capturo ''Soy Ana'',
        Persistio [\<lparr>rol = entrevistador, texto = pregunta_inicial\<rparr>,
                   \<lparr>rol = candidato, texto = ''Soy Ana''\<rparr>],
        Genero (''Sigamos '' @ sustituto),
        Capturo ''Cinco'']"
proof -
  have r: "strip '' '' = []"
    by (simp add: evalua_strip)
  have a:
    "'' '' \<noteq> []
     \<and> conversacion (ejecutar cfg_ejemplo (inicio logger_ejemplo Map.empty) [Enter, Transcrito '' ''])
       = [\<lparr>rol = entrevistador, texto = pregunta_inicial\<rparr>]
     \<and> disco (ejecutar cfg_ejemplo (inicio logger_ejemplo Map.empty) [Enter, Transcrito '' ''])
       = Map.empty
     \<and> traza (ejecutar cfg_ejemplo (inicio logger_ejemplo Map.empty) [Enter, Transcrito '' ''])
       = [Capturo '' '']
     \<and> punto (ejecutar cfg_ejemplo (inicio logger_ejemplo Map.empty) [Enter, Transcrito '' ''])
       = AwaitingCandidateInput"
    by (simp add: ejecutar_Cons ejecutar_Nil paso_def inicio_def r)
  have b:
    "strip ''Cinco'' \<noteq> []
     \<and> punto (ejecutar cfg_ejemplo (inicio logger_ejemplo Map.empty)
          [Enter, Transcrito ''Soy Ana'', Mostrado, Escrito ''2024-01-01T10:05:00.000001'',
           Respondido (\<lambda>pet. Respuesta True (Some pregunta_con_sustituto)), Mostrado,
           Enter])
       = Capturing
     \<and> conversacion (ejecutar cfg_ejemplo (inicio logger_ejemplo Map.empty)
          [Enter, Transcrito ''Soy Ana'', Mostrado, Escrito ''2024-01-01T10:05:00.000001'',
           Respondido (\<lambda>pet. Respuesta True (Some pregunta_con_sustituto)), Mostrado,
           Enter, Transcrito ''Cinco'', Mostrado, Escrito ''2024-01-01T10:05:30.000001''])
       = [\<lparr>rol = entrevistador, texto = pregunta_inicial\<rparr>,
          \<lparr>rol = candidato, texto = ''Soy Ana''\<rparr>,
          \<lparr>rol = entrevistador, texto = ''Sigamos '' @ sustituto\<rparr>,
          \<lparr>rol = candidato, texto = ''Cinco''\<rparr>]
     \<and> punto (ejecutar cfg_ejemplo (inicio logger_ejemplo Map.empty)
          [Enter, Transcrito ''Soy Ana'', Mostrado, Escrito ''2024-01-01T10:05:00.000001'',
           Respondido (\<lambda>pet. Respuesta True (Some pregunta_con_sustituto)), Mostrado,
           Enter, Transcrito ''Cinco'', Mostrado, Escrito ''2024-01-01T10:05:30.000001''])
       = Crashed
     \<and> cargar_conversacion logger_ejemplo None
          (disco (ejecutar cfg_ejemplo (inicio logger_ejemplo Map.empty)
            [Enter, Transcrito ''Soy Ana'', Mostrado, Escrito ''2024-01-01T10:05:00.000001'',
             Respondido (\<lambda>pet. Respuesta True (Some pregunta_con_sustituto)), Mostrado,
             Enter, Transcrito ''Cinco'', Mostrado, Escrito ''2024-01-01T10:05:30.000001'']))
       = Inr (JArray [])
     \<and> traza (ejecutar cfg_ejemplo (inicio logger_ejemplo Map.empty)
          [Enter, Transcrito ''Soy Ana'', Mostrado, Escrito ''2024-01-01T10:05:00.000001'',
           Respondido (\<lambda>pet. Respuesta True (Some pregunta_con_sustituto)), Mostrado,
           Enter, Transcrito ''Cinco'', Mostrado, Escrito ''2024-01-01T10:05:30.000001'',
           Respondido (\<lambda>pet. Respuesta True (Some despedida))])
       = [Capturo ''Soy Ana'',
          Persistio [\<lparr>rol = entrevistador, texto = pregunta_inicial\<rparr>,
                     \<lparr>rol = candidato, texto = ''Soy Ana''\<rparr>],
          Genero (''Sigamos '' @ sustituto),
          Capturo ''Cinco'']"
    by code_simp
  from a b show ?thesis
    by (intro conjI) (elim conjE, assumption)+
qed




text \<open>
  An interrupt that a module swallows does not reach the handler. The capture and the
  generation go on as if it had not been raised: the session saves nothing for it and
  does not terminate. In the run below the interrupt is raised while
  \<open>grabar_y_transcribir\<close> removes its temporary file; the answer is then appended and
  saved as usual, and the next question is asked for.
\<close>

lemma interrupcion_tragada:
  "punto s = Capturing \<or> punto s = GeneratingNextQuestion \<Longrightarrow>
     paso cfg s InterrupcionTragada = s"
  by (auto simp: paso_def)

lemma interrupcion_tragada_ejemplo:
  "punto (ejecutar cfg_ejemplo (inicio logger_ejemplo Map.empty)
       [Enter, InterrupcionTragada, Transcrito ''Soy Ana'', Mostrado,
        Escrito ''2024-01-01T10:05:00.000001''])
     = GeneratingNextQuestion
   \<and> traza (ejecutar cfg_ejemplo (inicio logger_ejemplo Map.empty)
       [Enter, InterrupcionTragada, Transcrito ''Soy Ana'', Mostrado,
        Escrito ''2024-01-01T10:05:00.000001''])
     = [Capturo ''Soy Ana'',
        Persistio [\<lparr>rol = entrevistador, texto = pregunta_inicial\<rparr>,
                   \<lparr>rol = candidato, texto = ''Soy Ana''\<rparr>]]"
  by code_simp

lemma respaldos_sin_cierre:
  "\<not> es_cierre pregunta_respaldo_forma"
  "\<not> es_cierre pregunta_respaldo_transporte"
  "\<not> es_cierre pregunta_respaldo_general"
  by code_simp+

lemma generar_respaldo:
  assumes "sin_clave clave \<or> respuesta_fallida (post (payload (modelo_especifico nm) c p))"
  shows "generar_pregunta clave post c p nm = pregunta_respaldo_forma
       \<or> generar_pregunta clave post c p nm = pregunta_respaldo_transporte
       \<or> generar_pregunta clave post c p nm = pregunta_respaldo_general"
  using assms generar_sin_clave [of clave post c p nm] generar_fallida [of clave post nm c p]
  by blast

text \<open>
  C9. When the generation fails (no API key, a failure of the transport, or an answer
  of the wrong shape), the question is one of the literal questions; it is not empty
  and has no closing marker, so the session presents it, appends it as a turn of the
  interviewer and waits for the candidate again.
\<close>

theorem fallo_no_termina:
  assumes "punto s = GeneratingNextQuestion"
    and "sin_clave (OPENROUTER_API_KEY cfg)
         \<or> respuesta_fallida
              (post (payload (modelo_especifico (Some (modelo_llm cfg))) (conversacion s) (prompt cfg)))"
    and "q = generar_pregunta (OPENROUTER_API_KEY cfg) post (conversacion s) (prompt cfg)
              (Some (modelo_llm cfg))"
  shows "(q = pregunta_respaldo_forma \<or> q = pregunta_respaldo_transporte
            \<or> q = pregunta_respaldo_general)
       \<and> q \<noteq> []
       \<and> \<not> es_cierre q
       \<and> punto (paso cfg s (Respondido post)) = Presenting q
       \<and> conversacion (ejecutar cfg s [Respondido post, Mostrado])
           = conversacion s @ [\<lparr>rol = entrevistador, texto = q\<rparr>]
       \<and> punto (ejecutar cfg s [Respondido post, Mostrado]) = AwaitingCandidateInput"
proof -
  have r: "q = pregunta_respaldo_forma \<or> q = pregunta_respaldo_transporte
            \<or> q = pregunta_respaldo_general"
    unfolding assms(3) using assms(2) by (rule generar_respaldo)
  then have n: "q \<noteq> []" and c: "\<not> es_cierre q"
    using respaldos_no_vacios respaldos_sin_cierre by auto
  have p: "paso cfg s (Respondido post) = s\<lparr>punto := Presenting q, traza := traza s @ [Genero q]\<rparr>"
    using assms(1) c by (simp add: paso_def assms(3) [symmetric])
  have e: "ejecutar cfg s [Respondido post, Mostrado]
             = (agregar (s\<lparr>punto := Presenting q, traza := traza s @ [Genero q]\<rparr>) entrevistador q)
                 \<lparr>punto := AwaitingCandidateInput\<rparr>"
    by (simp add: ejecutar_Cons ejecutar_Nil p) (simp add: paso_def)
  show ?thesis
    unfolding e p using r n c by (simp add: agregar_campos)
qed

theorem fallo_no_termina_witness:
  "conversacion (ejecutar cfg_ejemplo (inicio logger_ejemplo Map.empty)
       [Enter, Transcrito ''Soy Ana'', Mostrado, Escrito ''2024-01-01T10:05:00.000001'',
        Respondido (\<lambda>pet. Lanza RequestException), Mostrado])
     = [\<lparr>rol = entrevistador, texto = pregunta_inicial\<rparr>,
        \<lparr>rol = candidato, texto = ''Soy Ana''\<rparr>,
        \<lparr>rol = entrevistador, texto = pregunta_respaldo_transporte\<rparr>]
   \<and> punto (ejecutar cfg_ejemplo (inicio logger_ejemplo Map.empty)
       [Enter, Transcrito ''Soy Ana'', Mostrado, Escrito ''2024-01-01T10:05:00.000001'',
        Respondido (\<lambda>pet. Lanza RequestException), Mostrado])
     = AwaitingCandidateInput"
proof -
  let ?s = "ejecutar cfg_ejemplo (inicio logger_ejemplo Map.empty)
       [Enter, Transcrito ''Soy Ana'', Mostrado, Escrito ''2024-01-01T10:05:00.000001'']"
  let ?post = "\<lambda>pet :: peticion. Lanza RequestException"
  note p = sesion_ejemplo(1) and c = sesion_ejemplo(2)
  have f: "sin_clave (OPENROUTER_API_KEY cfg_ejemplo)
         \<or> respuesta_fallida
              (?post (payload (modelo_especifico (Some (modelo_llm cfg_ejemplo))) (conversacion ?s)
                 (prompt cfg_ejemplo)))"
    by simp
  have k: "\<not> sin_clave (OPENROUTER_API_KEY cfg_ejemplo)"
    by (simp add: cfg_ejemplo_def sin_clave_def)
  have q: "generar_pregunta (OPENROUTER_API_KEY cfg_ejemplo) ?post
             [\<lparr>rol = entrevistador, texto = pregunta_inicial\<rparr>,
              \<lparr>rol = candidato, texto = ''Soy Ana''\<rparr>]
             (prompt cfg_ejemplo) (Some (modelo_llm cfg_ejemplo)) = pregunta_respaldo_transporte"
    by (simp add: generar_con_clave [OF k])
  have e: "ejecutar cfg_ejemplo (inicio logger_ejemplo Map.empty)
       [Enter, Transcrito ''Soy Ana'', Mostrado, Escrito ''2024-01-01T10:05:00.000001'',
        Respondido ?post, Mostrado]
     = ejecutar cfg_ejemplo ?s [Respondido ?post, Mostrado]"
    by (simp add: ejecutar_Cons ejecutar_Nil)
  show ?thesis
    unfolding e using fallo_no_termina [OF p f refl] unfolding c q by simp
qed








lemma roles_distintos: "entrevistador \<noteq> candidato"
  by (simp add: entrevistador_def candidato_def)

lemma otro_otro:
  "quien = entrevistador \<or> quien = candidato \<Longrightarrow> otro (otro quien) = quien"
  using roles_distintos by (auto simp: otro_def)

lemma alterna_snoc:
  "c \<noteq> [] \<Longrightarrow> alterna quien c \<Longrightarrow> alterna quien (c @ [t]) = (rol t = otro (rol (last c)))"
proof (induction c arbitrary: quien)
  case Nil
  then show ?case by simp
next
  case (Cons x c)
  show ?case
  proof (cases c)
    case Nil
    with Cons.prems show ?thesis by auto
  next
    case (Cons y ys)
    with Cons.prems Cons.IH [of "otro quien"] show ?thesis by auto
  qed
qed

lemma alterna_nth:
  "alterna quien c \<Longrightarrow> quien = entrevistador \<or> quien = candidato \<Longrightarrow> i < length c \<Longrightarrow>
     rol (c ! i) = (if even i then quien else otro quien)"
proof (induction c arbitrary: quien i)
  case Nil
  then show ?case by simp
next
  case (Cons x c)
  show ?case
  proof (cases i)
    case 0
    with Cons.prems show ?thesis by simp
  next
    case (Suc j)
    have o: "otro quien = entrevistador \<or> otro quien = candidato"
      by (simp add: otro_def)
    from Cons.prems Suc have "rol (c ! j) = (if even j then otro quien else otro (otro quien))"
      by (intro Cons.IH o) simp_all
    with Suc otro_otro [OF Cons.prems(2)] show ?thesis by simp
  qed
qed

lemma invariante_inicio: "invariante (inicio lg archivos)"
  by (simp add: invariante_def inicio_def)

lemma invariante_paso: "invariante s \<Longrightarrow> invariante (paso cfg s ev)"
  using roles_distintos
  by (cases "punto s"; cases ev)
    (auto simp: invariante_def paso_def persistir_campos agregar_campos alterna_snoc otro_def Let_def)

lemma invariante_ejecutar: "invariante s \<Longrightarrow> invariante (ejecutar cfg s evs)"
  by (induction evs arbitrary: s) (simp_all add: ejecutar_Nil ejecutar_Cons invariante_paso)

text \<open>
  C6. At every point that a session reaches, the conversation is not empty, starts with
  a turn of the interviewer and alternates: the turns at even positions are the
  interviewer's, those at odd positions the candidate's. (Two turns of the interviewer
  never follow each other: the closing question is appended once.)
\<close>

theorem turnos_alternan:
  "conversacion (ejecutar cfg (inicio lg archivos) evs) \<noteq> []
   \<and> rol (hd (conversacion (ejecutar cfg (inicio lg archivos) evs))) = entrevistador
   \<and> alterna entrevistador (conversacion (ejecutar cfg (inicio lg archivos) evs))
   \<and> (\<forall>i < length (conversacion (ejecutar cfg (inicio lg archivos) evs)).
         rol (conversacion (ejecutar cfg (inicio lg archivos) evs) ! i)
           = (if even i then entrevistador else candidato))"
proof -
  let ?c = "conversacion (ejecutar cfg (inicio lg archivos) evs)"
  have "invariante (ejecutar cfg (inicio lg archivos) evs)"
    by (intro invariante_ejecutar invariante_inicio)
  then have n: "?c \<noteq> []" and a: "alterna entrevistador ?c"
    by (simp_all add: invariante_def)
  from n a have h: "rol (hd ?c) = entrevistador"
    by (cases ?c) simp_all
  have "rol (?c ! i) = (if even i then entrevistador else candidato)" if "i < length ?c" for i
    using alterna_nth [OF a _ that] by (simp add: otro_def)
  with n a h show ?thesis by blast
qed



theorem turnos_alternan_witness:
  "length (conversacion (ejecutar cfg_ejemplo (inicio logger_ejemplo Map.empty)
       [Enter, Transcrito ''Soy Ana'', Mostrado, Escrito ''2024-01-01T10:05:00.000001''])) = 2
   \<and> rol (conversacion (ejecutar cfg_ejemplo (inicio logger_ejemplo Map.empty)
       [Enter, Transcrito ''Soy Ana'', Mostrado, Escrito ''2024-01-01T10:05:00.000001'']) ! 0)
       = entrevistador
   \<and> rol (conversacion (ejecutar cfg_ejemplo (inicio logger_ejemplo Map.empty)
       [Enter, Transcrito ''Soy Ana'', Mostrado, Escrito ''2024-01-01T10:05:00.000001'']) ! 1)
       = candidato"
proof -
  let ?evs = "[Enter, Transcrito ''Soy Ana'', Mostrado, Escrito ''2024-01-01T10:05:00.000001'']"
  let ?c = "conversacion (ejecutar cfg_ejemplo (inicio logger_ejemplo Map.empty) ?evs)"
  have l: "length ?c = 2"
    by (simp add: sesion_ejemplo(2))
  have "\<forall>i < length ?c. rol (?c ! i) = (if even i then entrevistador else candidato)"
    using turnos_alternan [of cfg_ejemplo logger_ejemplo Map.empty ?evs] by blast
  then have "rol (?c ! 0) = entrevistador" and "rol (?c ! 1) = candidato"
    unfolding l by simp_all
  with l show ?thesis by blast
qed

end
